theory Spec2Isabelle
  imports Complex_Main
begin

section \<open>Indoor localization API: request handlers of \<^verbatim>\<open>app/main.py\<close>\<close>

text \<open>
  The development embeds, from \<^verbatim>\<open>src/app/main.py\<close>, the handler \<^verbatim>\<open>predict_room\<close>,
  the checks with which the handler \<^verbatim>\<open>add_measurement\<close> starts, and the lookup
  \<^verbatim>\<open>handle_get_room_name_by_id\<close>, over the request schemas of
  \<^verbatim>\<open>src/app/schemas.py\<close> and the tables of \<^verbatim>\<open>src/app/models.py\<close>.

  Conventions.
  \<^item> Python \<^verbatim>\<open>int\<close> is \<open>int\<close>; \<^verbatim>\<open>float\<close> is \<open>real\<close> (rounding and NaN are not
    represented); \<^verbatim>\<open>str\<close> is \<open>string\<close>; \<^verbatim>\<open>Optional[t]\<close> is \<open>t option\<close>.
  \<^item> A raised exception is \<open>Inl\<close> of a \<open>failure\<close>; a returned value is \<open>Inr\<close>.
  \<^item> The database session is a record of four tables, each a list of rows in storage
    order; \<^verbatim>\<open>.all()\<close> is the list, \<^verbatim>\<open>.filter_by(...).first()\<close> is \<open>find\<close>.
    Uniqueness and foreign-key constraints of the schema are not enforced by the store.
  \<^item> Field names shared by several records are written qualified
    (\<open>Room.room_id\<close>, \<open>Measurement.room_id\<close>).
\<close>

subsection \<open>Request schemas (\<^verbatim>\<open>schemas.py\<close>)\<close>

record RouterData =
  ssid :: string
  bssid :: string
  signal_strength :: int

record MeasurementData =
  room_name :: string
  device_id :: string
  timestamp :: int
  routers :: "RouterData list"

text \<open>
  The JSON body of a request to \<^verbatim>\<open>/measurements/add\<close> before validation: each key of
  \<^verbatim>\<open>MeasurementData\<close> is present with a value of its type, or absent (\<open>None\<close>).
\<close>

record MeasurementBody =
  room_name :: "string option"
  device_id :: "string option"
  timestamp :: "int option"
  routers :: "RouterData list option"

record PredictData =
  routers :: "RouterData list"
  ignore_measurements :: "int list option"
  use_remove_unreceived_bssids :: "bool option"
  handle_missing_values_strategy :: "string option"
  router_selection :: "string option"
  router_presence_threshold :: "real option"
  value_scaling_strategy :: "string option"
  router_rssi_threshold :: "int option"
  algorithm :: "string option"
  k_value :: "int option"
  weights :: "string option"
  n_estimators :: "int option"
  c_value :: "real option"
  gamma_value :: "real option"
  max_depth :: "int option"

subsection \<open>Tables (\<^verbatim>\<open>models.py\<close>)\<close>

text \<open>A \<^verbatim>\<open>datetime\<close> value, as seconds since the Unix epoch (UTC).\<close>

datatype datetime = Datetime int

record Room =
  room_id :: int
  room_name :: string
  description :: "string option"
  coordinates :: "string option"
  picture_path :: "string option"
  additional_info :: "string option"

record Measurement =
  measurement_id :: int
  timestamp :: datetime
  device_id :: string
  room_id :: int

record Router =
  router_id :: int
  ssid :: string
  bssid :: string

record MeasurementRouter =
  measurement_id :: int
  router_id :: int
  signal_strength :: "int option"

record database =
  rooms :: "Room list"
  measurements :: "Measurement list"
  routers :: "Router list"
  measurement_router :: "MeasurementRouter list"

text \<open>One entry of the list \<^verbatim>\<open>result\<close> built by \<^verbatim>\<open>predict_room\<close> (lines 161-169).\<close>

record RawReading =
  measurement_id :: int
  timestamp :: datetime
  device_id :: string
  room_id :: int
  bssid :: string
  ssid :: string
  signal_strength :: "int option"

subsection \<open>Exceptions and responses\<close>

datatype failure =
    HTTPException int string
  | ValueError string
  | TypeError string
  | AttributeError string
  | UnboundLocalError string
  | TimestampOutOfRange
  | HelperError string
  | RequestValidationError

datatype response =
    ErrorTuple string int
  | Prediction string real real

text \<open>
  \<open>ErrorTuple m c\<close> is the pair
  \<^verbatim>\<open>({"error": m}, c)\<close> that \<^verbatim>\<open>predict_room\<close> returns at line 185;
  \<open>Prediction n d v\<close> is \<^verbatim>\<open>{"room_name": n, "distance": d, "optional_value": v}\<close>.
  \<open>HelperError\<close> stands for any exception raised inside a helper of \<^verbatim>\<open>utils\<close>;
  \<open>TimestampOutOfRange\<close> for the \<^verbatim>\<open>ValueError\<close>/\<^verbatim>\<open>OverflowError\<close>/\<^verbatim>\<open>OSError\<close>
  of \<^verbatim>\<open>datetime.utcfromtimestamp\<close> outside the years 1 to 9999;
  \<open>RequestValidationError\<close> for the rejection (HTTP 422) of a body that does not fit the
  schema of the route.
\<close>

subsection \<open>Room-name lookup (\<^verbatim>\<open>main.py\<close>, lines 262-276)\<close>

definition handle_get_room_name_by_id :: "int \<Rightarrow> database \<Rightarrow> string" where
  "handle_get_room_name_by_id rid db =
     (case find (\<lambda>r. Room.room_id r = rid) (rooms db) of
        None \<Rightarrow> ''Unknown''
      | Some room \<Rightarrow> Room.room_name room)"

subsection \<open>Adding a measurement: the checks (\<^verbatim>\<open>main.py\<close>, lines 62-86)\<close>

definition utcfromtimestamp :: "int \<Rightarrow> failure + datetime" where
  "utcfromtimestamp t =
     (if - 62135596800 \<le> t \<and> t \<le> 253402300799 then Inr (Datetime t)
      else Inl TimestampOutOfRange)"

text \<open>
  The value an auto-incremented integer primary key takes for a new row: one more than
  the greatest key of the table. No property below depends on the value chosen.
\<close>

definition next_id :: "int list \<Rightarrow> int" where
  "next_id ids = fold max ids 0 + 1"

text \<open>
  Lines 74-79: \<^verbatim>\<open>db.query(Room).filter_by(room_name=room_name).first()\<close>, and the
  insertion and commit of a new room when there is none.
\<close>

definition get_or_create_room :: "database \<Rightarrow> string \<Rightarrow> database \<times> Room" where
  "get_or_create_room db name =
     (case find (\<lambda>r. Room.room_name r = name) (rooms db) of
        Some room \<Rightarrow> (db, room)
      | None \<Rightarrow>
          (let room = \<lparr>Room.room_id = next_id (map Room.room_id (rooms db)),
                       Room.room_name = name, description = None, coordinates = None,
                       picture_path = None, additional_info = None\<rparr>
           in (db\<lparr>rooms := rooms db @ [room]\<rparr>, room)))"

text \<open>
  Lines 62-86: \<^verbatim>\<open>add_measurement\<close> up to the check for an existing measurement. The
  result is the database as committed so far with, as \<open>Inl\<close>, the exception that this
  part of the function raises, or, as \<open>Inr\<close>, the room and the \<^verbatim>\<open>datetime\<close> with
  which the function goes on to the insertion of line 88. The insertion itself
  (lines 88-121) is not part of this development.
\<close>

definition add_measurement_checks ::
  "database \<Rightarrow> MeasurementData \<Rightarrow> database \<times> (failure + Room \<times> datetime)" where
  "add_measurement_checks db data =
     (let room_name = MeasurementData.room_name data;
          device_id = MeasurementData.device_id data;
          timestamp = MeasurementData.timestamp data;
          routers = MeasurementData.routers data
      in
        if room_name = [] \<or> device_id = [] \<or> timestamp = 0 \<or> routers = []
        then (db, Inl (HTTPException 400 ''Missing data''))
        else
          (let (db1, room) = get_or_create_room db room_name
           in case utcfromtimestamp timestamp of
                Inl e \<Rightarrow> (db1, Inl e)
              | Inr timestamp_obj \<Rightarrow>
                  (case find (\<lambda>m. Measurement.device_id m = device_id \<and>
                                    Measurement.timestamp m = timestamp_obj)
                          (measurements db1) of
                     Some existing_measurement \<Rightarrow>
                       (db1, Inl (HTTPException 409
                          ''Measurement with the same device_id and timestamp already exists''))
                   | None \<Rightarrow> (db1, Inr (room, timestamp_obj)))))"

text \<open>
  The route (lines 62-63): the parameter \<^verbatim>\<open>data: MeasurementData\<close> is built from the
  body by the schema, whose four fields are all required (\<^verbatim>\<open>schemas.py\<close>, lines 9-13);
  a body that lacks one of them is rejected and the handler is not called.
\<close>

definition validate_MeasurementData :: "MeasurementBody \<Rightarrow> failure + MeasurementData" where
  "validate_MeasurementData body =
     (case (MeasurementBody.room_name body, MeasurementBody.device_id body,
            MeasurementBody.timestamp body, MeasurementBody.routers body) of
        (Some n, Some d, Some t, Some rs) \<Rightarrow>
          Inr \<lparr>MeasurementData.room_name = n, MeasurementData.device_id = d,
               MeasurementData.timestamp = t, MeasurementData.routers = rs\<rparr>
      | _ \<Rightarrow> Inl RequestValidationError)"

definition post_measurements_add ::
  "database \<Rightarrow> MeasurementBody \<Rightarrow> database \<times> (failure + Room \<times> datetime)" where
  "post_measurements_add db body =
     (case validate_MeasurementData body of
        Inl e \<Rightarrow> (db, Inl e)
      | Inr data \<Rightarrow> add_measurement_checks db data)"

subsection \<open>Arrays\<close>

text \<open>
  A two-dimensional \<^verbatim>\<open>numpy\<close> array is the list of its rows; \<^verbatim>\<open>X.size\<close> is the
  number of cells; \<^verbatim>\<open>X.min()\<close> is the least cell and raises \<^verbatim>\<open>ValueError\<close> on an
  array without cells. The label vector \<^verbatim>\<open>y\<close> is a list of room identifiers.
\<close>

type_synonym ndarray = "real list list"

definition nd_size :: "ndarray \<Rightarrow> nat" where
  "nd_size X = length (concat X)"

definition nd_min :: "ndarray \<Rightarrow> failure + real" where
  "nd_min X =
     (case concat X of
        [] \<Rightarrow> Inl (ValueError
                ''zero-size array to reduction operation minimum which has no identity'')
      | c # cs \<Rightarrow> Inr (fold min cs c))"

subsection \<open>The helpers of \<^verbatim>\<open>utils\<close>\<close>

text \<open>
  \<^verbatim>\<open>main.py\<close> imports thirteen helpers from the module \<^verbatim>\<open>utils\<close>, which is not
  part of the sources at hand. They are parameters of the embedding: a record of
  functions, each of which may raise. \<open>'rd\<close> is the type of the processed live scan,
  \<open>'fp\<close> the type of the fingerprint collection (the variable \<^verbatim>\<open>rooms\<close>).
  The argument order is the one of the calls in \<^verbatim>\<open>predict_room\<close>.
\<close>

record ('rd, 'fp) utils =
  process_received_data :: "RouterData list \<Rightarrow> failure + 'rd"
  process_fingerprint_data :: "RawReading list \<Rightarrow> failure + 'fp"
  remove_unreceived_bssids :: "'fp \<Rightarrow> 'rd \<Rightarrow> failure + 'fp"
  remove_non_eduroam_bssids :: "'fp \<Rightarrow> failure + 'fp"
  remove_rare_routers :: "'fp \<Rightarrow> real \<Rightarrow> failure + 'fp"
  prepare_data :: "'fp \<Rightarrow> failure + (ndarray \<times> int list \<times> string list)"
  handle_missing_values ::
    "ndarray \<Rightarrow> string list \<Rightarrow> 'rd \<Rightarrow> string option \<Rightarrow> failure + ndarray"
  prepare_received_data :: "'rd \<Rightarrow> string list \<Rightarrow> failure + ndarray"
  handle_router_rssi_threshold ::
    "ndarray \<Rightarrow> ndarray \<Rightarrow> int option \<Rightarrow> failure + (ndarray \<times> ndarray)"
  value_scaling ::
    "ndarray \<Rightarrow> ndarray \<Rightarrow> real \<Rightarrow> string option \<Rightarrow> failure + (ndarray \<times> ndarray)"
  knn ::
    "ndarray \<Rightarrow> ndarray \<Rightarrow> int list \<Rightarrow> int option \<Rightarrow> string \<Rightarrow> string option
      \<Rightarrow> failure + (int \<times> real)"
  random_forest ::
    "ndarray \<Rightarrow> ndarray \<Rightarrow> int list \<Rightarrow> int option \<Rightarrow> int option \<Rightarrow> failure + (int \<times> real)"
  svm ::
    "ndarray \<Rightarrow> ndarray \<Rightarrow> int list \<Rightarrow> real option \<Rightarrow> string \<Rightarrow> real option
      \<Rightarrow> failure + (int \<times> real \<times> real)"

text \<open>
  A run of \<^verbatim>\<open>predict_room\<close> is observed through the calls it makes to these helpers:
  one \<open>call\<close> per invocation, with the arguments passed, in program order.
\<close>

datatype ('rd, 'fp) call =
    Process_received_data "RouterData list"
  | Process_fingerprint_data "RawReading list"
  | Remove_unreceived_bssids 'fp 'rd
  | Remove_non_eduroam_bssids 'fp
  | Remove_rare_routers 'fp real
  | Prepare_data 'fp
  | Handle_missing_values ndarray "string list" 'rd "string option"
  | Prepare_received_data 'rd "string list"
  | Handle_router_rssi_threshold ndarray ndarray "int option"
  | Value_scaling ndarray ndarray real "string option"
  | Knn ndarray ndarray "int list" "int option" string "string option"
  | Random_forest ndarray ndarray "int list" "int option" "int option"
  | Svm ndarray ndarray "int list" "real option" string "real option"


fun is_imputation_call :: "('rd, 'fp) call \<Rightarrow> bool" where
  "is_imputation_call (Handle_missing_values _ _ _ _) = True"
| "is_imputation_call _ = False"

fun is_conditioning_call :: "('rd, 'fp) call \<Rightarrow> bool" where
  "is_conditioning_call (Handle_router_rssi_threshold _ _ _) = True"
| "is_conditioning_call (Value_scaling _ _ _ _) = True"
| "is_conditioning_call _ = False"

fun is_classifier_call :: "('rd, 'fp) call \<Rightarrow> bool" where
  "is_classifier_call (Knn _ _ _ _ _ _) = True"
| "is_classifier_call (Random_forest _ _ _ _ _) = True"
| "is_classifier_call (Svm _ _ _ _ _ _) = True"
| "is_classifier_call _ = False"

text \<open>
  A computation is the list of helper calls made so far, with the exception raised or
  the value produced. \<open>invoke\<close> records one call; \<open>and_then\<close> runs the rest of the
  function body when no exception has been raised.
\<close>

type_synonym ('c, 'a) run = "'c list \<times> (failure + 'a)"

definition done_with :: "'a \<Rightarrow> ('c, 'a) run" where
  "done_with x = ([], Inr x)"

definition raise :: "failure \<Rightarrow> ('c, 'a) run" where
  "raise e = ([], Inl e)"

definition invoke :: "'c \<Rightarrow> failure + 'a \<Rightarrow> ('c, 'a) run" where
  "invoke c r = ([c], r)"

definition quiet :: "failure + 'a \<Rightarrow> ('c, 'a) run" where
  "quiet r = ([], r)"

definition and_then :: "('c, 'a) run \<Rightarrow> ('a \<Rightarrow> ('c, 'b) run) \<Rightarrow> ('c, 'b) run" where
  "and_then m f =
     (case snd m of
        Inl e \<Rightarrow> (fst m, Inl e)
      | Inr x \<Rightarrow> (fst m @ fst (f x), snd (f x)))"

subsection \<open>Predicting a room (\<^verbatim>\<open>main.py\<close>, lines 123-223)\<close>

text \<open>
  Lines 158-169: the rows of one measurement. \<^verbatim>\<open>router_info.bssid\<close> raises
  \<^verbatim>\<open>AttributeError\<close> when the router row is absent.
\<close>

fun readings_of ::
  "database \<Rightarrow> Measurement \<Rightarrow> MeasurementRouter list \<Rightarrow> failure + RawReading list" where
  "readings_of db measurement [] = Inr []"
| "readings_of db measurement (router # rest) =
     (case find (\<lambda>r. Router.router_id r = MeasurementRouter.router_id router)
             (database.routers db) of
        None \<Rightarrow> Inl (AttributeError ''bssid'')
      | Some router_info \<Rightarrow>
          (case readings_of db measurement rest of
             Inl e \<Rightarrow> Inl e
           | Inr rows \<Rightarrow>
               Inr (\<lparr>RawReading.measurement_id = Measurement.measurement_id measurement,
                     RawReading.timestamp = Measurement.timestamp measurement,
                     RawReading.device_id = Measurement.device_id measurement,
                     RawReading.room_id = Measurement.room_id measurement,
                     RawReading.bssid = Router.bssid router_info,
                     RawReading.ssid = Router.ssid router_info,
                     RawReading.signal_strength = MeasurementRouter.signal_strength router\<rparr>
                    # rows)))"

text \<open>Lines 153-169: the loop over all measurements, skipping the ignored ones.\<close>

fun collect_readings ::
  "database \<Rightarrow> int list option \<Rightarrow> Measurement list \<Rightarrow> failure + RawReading list" where
  "collect_readings db ignored [] = Inr []"
| "collect_readings db ignored (measurement # rest) =
     (if (case ignored of None \<Rightarrow> False
          | Some ids \<Rightarrow> ids \<noteq> [] \<and> Measurement.measurement_id measurement \<in> set ids)
      then collect_readings db ignored rest
      else
        (case readings_of db measurement
                (filter (\<lambda>mr. MeasurementRouter.measurement_id mr =
                               Measurement.measurement_id measurement)
                   (measurement_router db)) of
           Inl e \<Rightarrow> Inl e
         | Inr rows \<Rightarrow>
             (case collect_readings db ignored rest of
                Inl e \<Rightarrow> Inl e
              | Inr others \<Rightarrow> Inr (rows @ others))))"

text \<open>
  Lines 201-212: the dispatch on the algorithm name. The result holds the pair
  \<^verbatim>\<open>(predicted_room, distance)\<close> when a branch has bound it, and \<^verbatim>\<open>optional_value\<close>,
  which starts as \<open>-1\<close>.
\<close>

definition dispatch ::
  "('rd, 'fp) utils \<Rightarrow> PredictData \<Rightarrow> ndarray \<Rightarrow> ndarray \<Rightarrow> int list
    \<Rightarrow> (('rd, 'fp) call, (int \<times> real) option \<times> real) run" where
  "dispatch u data X X_new y =
     (let algorithm = algorithm data; k_value = k_value data; weights = weights data;
          n_estimators = n_estimators data; c_value = c_value data;
          gamma_value = gamma_value data; max_depth = max_depth data;
          optional_value = - 1
      in
        if algorithm = Some ''knn_sorensen'' then
          and_then (invoke (Knn X X_new y k_value ''sorensen'' weights)
                      (knn u X X_new y k_value ''sorensen'' weights))
            (\<lambda>(predicted_room, distance).
               done_with (Some (predicted_room, distance), optional_value))
        else if algorithm = Some ''knn_euclidean'' then
          and_then (invoke (Knn X X_new y k_value ''euclidean'' weights)
                      (knn u X X_new y k_value ''euclidean'' weights))
            (\<lambda>(predicted_room, distance).
               done_with (Some (predicted_room, distance), optional_value))
        else if algorithm = Some ''random_forest'' then
          and_then (invoke (Random_forest X X_new y n_estimators max_depth)
                      (random_forest u X X_new y n_estimators max_depth))
            (\<lambda>(predicted_room, distance).
               done_with (Some (predicted_room, distance), optional_value))
        else if algorithm = Some ''svm_linear'' then
          and_then (invoke (Svm X X_new y c_value ''linear'' gamma_value)
                      (svm u X X_new y c_value ''linear'' gamma_value))
            (\<lambda>(predicted_room, distance, optional_value).
               done_with (Some (predicted_room, distance), optional_value))
        else if algorithm = Some ''svm_rbf'' then
          and_then (invoke (Svm X X_new y c_value ''rbf'' gamma_value)
                      (svm u X X_new y c_value ''rbf'' gamma_value))
            (\<lambda>(predicted_room, distance, optional_value).
               done_with (Some (predicted_room, distance), optional_value))
        else done_with (None, optional_value))"

text \<open>
  The body of \<^verbatim>\<open>predict_room\<close> is one straight line of helper calls with two early
  exits. It is written here in consecutive blocks, each the rest of the function from
  a given line on; \<open>predict_room\<close> itself is the first block.
\<close>

text \<open>
  Lines 194-223: the check of the conditioned query vector, the dispatch, the room-name
  lookup and the response. \<^verbatim>\<open>predicted_room\<close> is read at line 214; when no branch of
  the dispatch has bound it, Python raises \<^verbatim>\<open>UnboundLocalError\<close>.
\<close>

definition classify_and_respond ::
  "('rd, 'fp) utils \<Rightarrow> database \<Rightarrow> PredictData \<Rightarrow> ndarray \<Rightarrow> ndarray \<Rightarrow> int list
    \<Rightarrow> (('rd, 'fp) call, response) run" where
  "classify_and_respond u db data X X_new y =
     (if nd_size X_new = 0
      then raise (ValueError ''Received data is empty. Check the input data.'')
      else
        and_then (dispatch u data X X_new y)
          (\<lambda>(bound, optional_value).
             case bound of
               None \<Rightarrow> raise (UnboundLocalError ''predicted_room'')
             | Some (predicted_room, distance) \<Rightarrow>
                 (let room_name = handle_get_room_name_by_id predicted_room db
                  in done_with (Prediction room_name distance optional_value))))"

text \<open>
  Lines 187-223: imputation, the query vector, \<^verbatim>\<open>min_rssi_value\<close>, the threshold and
  the scaling, then the block above.
\<close>

definition condition_and_classify ::
  "('rd, 'fp) utils \<Rightarrow> database \<Rightarrow> PredictData \<Rightarrow> 'rd \<Rightarrow> ndarray \<Rightarrow> int list \<Rightarrow> string list
    \<Rightarrow> (('rd, 'fp) call, response) run" where
  "condition_and_classify u db data received_data X y mac_address_list =
     (let handle_missing_values_strategy = handle_missing_values_strategy data;
          value_scaling_strategy = value_scaling_strategy data;
          router_rssi_threshold = router_rssi_threshold data
      in
      and_then
        (invoke (Handle_missing_values X mac_address_list received_data
                   handle_missing_values_strategy)
           (handle_missing_values u X mac_address_list received_data
              handle_missing_values_strategy))
        (\<lambda>X.
      and_then
        (invoke (Prepare_received_data received_data mac_address_list)
           (prepare_received_data u received_data mac_address_list))
        (\<lambda>X_new.
      and_then (quiet (nd_min X))
        (\<lambda>X_min.
      and_then (quiet (nd_min X_new))
        (\<lambda>X_new_min.
      (let min_rssi_value = min X_min X_new_min in
      and_then
        (invoke (Handle_router_rssi_threshold X X_new router_rssi_threshold)
           (handle_router_rssi_threshold u X X_new router_rssi_threshold))
        (\<lambda>(X, X_new).
      and_then
        (invoke (Value_scaling X X_new min_rssi_value value_scaling_strategy)
           (value_scaling u X X_new min_rssi_value value_scaling_strategy))
        (\<lambda>(X, X_new). classify_and_respond u db data X X_new y))))))))"

text \<open>
  Lines 182-223: the feature matrix and the exit at line 185, which returns the pair
  of an error dictionary and 400 (a return, not a raise), then the block above.
\<close>

definition train_and_classify ::
  "('rd, 'fp) utils \<Rightarrow> database \<Rightarrow> PredictData \<Rightarrow> 'rd \<Rightarrow> 'fp
    \<Rightarrow> (('rd, 'fp) call, response) run" where
  "train_and_classify u db data received_data rooms_in =
     and_then (invoke (Prepare_data rooms_in) (prepare_data u rooms_in))
       (\<lambda>(X, y, mac_address_list).
          if nd_size X = 0 \<or> length y = 0
          then done_with (ErrorTuple ''Training data is empty. Check the input data.'' 400)
          else condition_and_classify u db data received_data X y mac_address_list)"

text \<open>
  Lines 173-180: the three router filters. \<^verbatim>\<open>router_presence_threshold > 0\<close> raises
  \<^verbatim>\<open>TypeError\<close> when the field is \<^verbatim>\<open>None\<close>.
\<close>

definition filter_chain ::
  "('rd, 'fp) utils \<Rightarrow> PredictData \<Rightarrow> 'rd \<Rightarrow> 'fp \<Rightarrow> (('rd, 'fp) call, 'fp) run" where
  "filter_chain u data received_data rooms_in =
     (let use_remove_unreceived_bssids = use_remove_unreceived_bssids data;
          router_selection = router_selection data;
          router_presence_threshold = router_presence_threshold data
      in
      and_then
        (if use_remove_unreceived_bssids = Some True
         then invoke (Remove_unreceived_bssids rooms_in received_data)
                (remove_unreceived_bssids u rooms_in received_data)
         else done_with rooms_in)
        (\<lambda>rooms.
      and_then
        (if router_selection = Some ''eduroam''
         then invoke (Remove_non_eduroam_bssids rooms) (remove_non_eduroam_bssids u rooms)
         else done_with rooms)
        (\<lambda>rooms.
        (case router_presence_threshold of
           None \<Rightarrow> raise (TypeError ''> not supported between NoneType and int'')
         | Some threshold \<Rightarrow>
             if threshold > 0
             then invoke (Remove_rare_routers rooms threshold)
                    (remove_rare_routers u rooms threshold)
             else done_with rooms))))"

text \<open>Lines 124-171, then the blocks above.\<close>

definition predict_room ::
  "('rd, 'fp) utils \<Rightarrow> database \<Rightarrow> PredictData \<Rightarrow> (('rd, 'fp) call, response) run" where
  "predict_room u db data =
     (let routers = PredictData.routers data;
          ignore_measurements = ignore_measurements data
      in
        if routers = [] then raise (HTTPException 400 ''Missing data'')
        else
          and_then (invoke (Process_received_data routers) (process_received_data u routers))
            (\<lambda>received_data.
          and_then (quiet (collect_readings db ignore_measurements (measurements db)))
            (\<lambda>result.
          and_then (invoke (Process_fingerprint_data result)
                      (process_fingerprint_data u result))
            (\<lambda>rooms.
          and_then (filter_chain u data received_data rooms)
            (\<lambda>rooms. train_and_classify u db data received_data rooms)))))"

subsection \<open>Reading a run\<close>

text \<open>The position of a helper in the body of \<^verbatim>\<open>predict_room\<close>.\<close>

fun helper_rank :: "('rd, 'fp) call \<Rightarrow> nat" where
  "helper_rank (Process_received_data _) = 0"
| "helper_rank (Process_fingerprint_data _) = 1"
| "helper_rank (Remove_unreceived_bssids _ _) = 2"
| "helper_rank (Remove_non_eduroam_bssids _) = 3"
| "helper_rank (Remove_rare_routers _ _) = 4"
| "helper_rank (Prepare_data _) = 5"
| "helper_rank (Handle_missing_values _ _ _ _) = 6"
| "helper_rank (Prepare_received_data _ _) = 7"
| "helper_rank (Handle_router_rssi_threshold _ _ _) = 8"
| "helper_rank (Value_scaling _ _ _ _) = 9"
| "helper_rank (Knn _ _ _ _ _ _) = 10"
| "helper_rank (Random_forest _ _ _ _ _) = 10"
| "helper_rank (Svm _ _ _ _ _ _) = 10"

text \<open>
  The room identifier and the distance that a classifier call hands back to
  \<^verbatim>\<open>predict_room\<close>; \<open>None\<close> for a call that raises and for the other helpers.
\<close>

fun answer_of :: "('rd, 'fp) utils \<Rightarrow> ('rd, 'fp) call \<Rightarrow> (int \<times> real) option" where
  "answer_of u (Knn X X_new y k metric w) =
     (case knn u X X_new y k metric w of Inl e \<Rightarrow> None | Inr (p, d) \<Rightarrow> Some (p, d))"
| "answer_of u (Random_forest X X_new y n depth) =
     (case random_forest u X X_new y n depth of Inl e \<Rightarrow> None | Inr (p, d) \<Rightarrow> Some (p, d))"
| "answer_of u (Svm X X_new y c kern g) =
     (case svm u X X_new y c kern g of Inl e \<Rightarrow> None | Inr (p, d, v) \<Rightarrow> Some (p, d))"
| "answer_of u _ = None"

text \<open>The five names that a branch of the dispatch (lines 203-212) compares with.\<close>

definition recognised :: "string option \<Rightarrow> bool" where
  "recognised a \<longleftrightarrow>
     a = Some ''knn_sorensen'' \<or> a = Some ''knn_euclidean'' \<or> a = Some ''random_forest'' \<or>
     a = Some ''svm_linear'' \<or> a = Some ''svm_rbf''"

subsection \<open>Sample data\<close>

text \<open>
  Two rooms with one measurement each, heard by two routers, and a live scan: the data
  of scenario A in section 8 of the specification.
\<close>

definition sample_db :: database where
  "sample_db =
     \<lparr>rooms =
        [\<lparr>Room.room_id = 1, Room.room_name = ''101'', description = None, coordinates = None,
          picture_path = None, additional_info = None\<rparr>,
         \<lparr>Room.room_id = 2, Room.room_name = ''102'', description = None, coordinates = None,
          picture_path = None, additional_info = None\<rparr>],
      measurements =
        [\<lparr>Measurement.measurement_id = 1, Measurement.timestamp = Datetime 1700000000,
          Measurement.device_id = ''dev1'', Measurement.room_id = 1\<rparr>,
         \<lparr>Measurement.measurement_id = 2, Measurement.timestamp = Datetime 1700000060,
          Measurement.device_id = ''dev1'', Measurement.room_id = 2\<rparr>],
      database.routers =
        [\<lparr>Router.router_id = 1, Router.ssid = ''eduroam'', Router.bssid = ''AA''\<rparr>,
         \<lparr>Router.router_id = 2, Router.ssid = ''eduroam'', Router.bssid = ''BB''\<rparr>],
      measurement_router =
        [\<lparr>MeasurementRouter.measurement_id = 1, MeasurementRouter.router_id = 1,
          MeasurementRouter.signal_strength = Some (- 40)\<rparr>,
         \<lparr>MeasurementRouter.measurement_id = 1, MeasurementRouter.router_id = 2,
          MeasurementRouter.signal_strength = Some (- 60)\<rparr>,
         \<lparr>MeasurementRouter.measurement_id = 2, MeasurementRouter.router_id = 1,
          MeasurementRouter.signal_strength = Some (- 80)\<rparr>,
         \<lparr>MeasurementRouter.measurement_id = 2, MeasurementRouter.router_id = 2,
          MeasurementRouter.signal_strength = Some (- 45)\<rparr>]\<rparr>"

definition sample_rows :: "RawReading list" where
  "sample_rows =
     [\<lparr>RawReading.measurement_id = 1, RawReading.timestamp = Datetime 1700000000,
       RawReading.device_id = ''dev1'', RawReading.room_id = 1, RawReading.bssid = ''AA'',
       RawReading.ssid = ''eduroam'', RawReading.signal_strength = Some (- 40)\<rparr>,
      \<lparr>RawReading.measurement_id = 1, RawReading.timestamp = Datetime 1700000000,
       RawReading.device_id = ''dev1'', RawReading.room_id = 1, RawReading.bssid = ''BB'',
       RawReading.ssid = ''eduroam'', RawReading.signal_strength = Some (- 60)\<rparr>,
      \<lparr>RawReading.measurement_id = 2, RawReading.timestamp = Datetime 1700000060,
       RawReading.device_id = ''dev1'', RawReading.room_id = 2, RawReading.bssid = ''AA'',
       RawReading.ssid = ''eduroam'', RawReading.signal_strength = Some (- 80)\<rparr>,
      \<lparr>RawReading.measurement_id = 2, RawReading.timestamp = Datetime 1700000060,
       RawReading.device_id = ''dev1'', RawReading.room_id = 2, RawReading.bssid = ''BB'',
       RawReading.ssid = ''eduroam'', RawReading.signal_strength = Some (- 45)\<rparr>]"

definition sample_scan :: "RouterData list" where
  "sample_scan =
     [\<lparr>RouterData.ssid = ''eduroam'', RouterData.bssid = ''AA'',
       RouterData.signal_strength = - 42\<rparr>,
      \<lparr>RouterData.ssid = ''eduroam'', RouterData.bssid = ''BB'',
       RouterData.signal_strength = - 58\<rparr>]"

definition sample_X :: ndarray where
  "sample_X = [[- 40, - 60], [- 80, - 45]]"

definition sample_y :: "int list" where
  "sample_y = [1, 2]"

definition sample_macs :: "string list" where
  "sample_macs = [''AA'', ''BB'']"

definition sample_X_new :: ndarray where
  "sample_X_new = [[- 42, - 58]]"

text \<open>
  Helpers with fixed answers, to run the handler on the sample data: the filters and
  the conditioning keep their input, the matrix builder answers with the matrices of the
  sample (or with empty ones when it is given no reading), the classifiers answer with
  room 1.
\<close>

definition canned_utils :: "(RouterData list, RawReading list) utils" where
  "canned_utils =
     \<lparr>process_received_data = Inr,
      process_fingerprint_data = Inr,
      remove_unreceived_bssids = (\<lambda>rows rd. Inr rows),
      remove_non_eduroam_bssids = (\<lambda>rows. Inr rows),
      remove_rare_routers = (\<lambda>rows t. Inr rows),
      prepare_data =
        (\<lambda>rows. if rows = [] then Inr ([], [], []) else Inr (sample_X, sample_y, sample_macs)),
      handle_missing_values = (\<lambda>X macs rd strategy. Inr X),
      prepare_received_data = (\<lambda>rd macs. Inr sample_X_new),
      handle_router_rssi_threshold = (\<lambda>X X_new t. Inr (X, X_new)),
      value_scaling = (\<lambda>X X_new m strategy. Inr (X, X_new)),
      knn = (\<lambda>X X_new y k metric w. Inr (1, 4)),
      random_forest = (\<lambda>X X_new y n depth. Inr (1, 1 / 4)),
      svm = (\<lambda>X X_new y c kern g. Inr (1, 1 / 4, 3 / 2))\<rparr>"

text \<open>A request with the defaults of \<^verbatim>\<open>PredictData\<close>.\<close>

definition sample_request :: "RouterData list \<Rightarrow> string \<Rightarrow> PredictData" where
  "sample_request rs alg =
     \<lparr>PredictData.routers = rs, ignore_measurements = None,
      use_remove_unreceived_bssids = Some True,
      handle_missing_values_strategy = Some ''use_received'',
      router_selection = Some ''all'', router_presence_threshold = Some 0,
      value_scaling_strategy = Some ''none'', router_rssi_threshold = Some (- 100),
      algorithm = Some alg, k_value = Some 5, weights = Some ''uniform'',
      n_estimators = Some 300, c_value = Some 1, gamma_value = Some 1, max_depth = None\<rparr>"

definition sample_measurement :: "string \<Rightarrow> int \<Rightarrow> RouterData list \<Rightarrow> MeasurementData" where
  "sample_measurement name t rs =
     \<lparr>MeasurementData.room_name = name, MeasurementData.device_id = ''dev1'',
      MeasurementData.timestamp = t, MeasurementData.routers = rs\<rparr>"

definition sample_body :: "int option \<Rightarrow> MeasurementBody" where
  "sample_body t =
     \<lparr>MeasurementBody.room_name = Some ''101'', MeasurementBody.device_id = Some ''dev1'',
      MeasurementBody.timestamp = t, MeasurementBody.routers = Some sample_scan\<rparr>"

section \<open>Properties\<close>

subsection \<open>Runs and the calls they make\<close>

lemma fst_and_then:
  "fst (and_then m f) = fst m @ (case snd m of Inl e \<Rightarrow> [] | Inr x \<Rightarrow> fst (f x))"
  by (simp add: and_then_def split: sum.splits)

lemma snd_and_then:
  "snd (and_then m f) = (case snd m of Inl e \<Rightarrow> Inl e | Inr x \<Rightarrow> snd (f x))"
  by (simp add: and_then_def split: sum.splits)

lemma calls_and_then:
  "c \<in> set (fst (and_then m f)) \<longleftrightarrow>
     c \<in> set (fst m) \<or> (\<exists>x. snd m = Inr x \<and> c \<in> set (fst (f x)))"
  by (auto simp: fst_and_then split: sum.splits)

lemma run_simps [simp]:
  "fst (invoke c r) = [c]" "snd (invoke c r) = r"
  "fst (quiet r) = []" "snd (quiet r) = r"
  "fst (raise e) = []" "snd (raise e) = Inl e"
  "fst (done_with x) = []" "snd (done_with x) = Inr x"
  by (simp_all add: invoke_def quiet_def raise_def done_with_def)

lemma classifier_rank: "is_classifier_call c \<longleftrightarrow> helper_rank c = 10"
  by (cases c) simp_all


lemma imputation_rank: "is_imputation_call c \<longleftrightarrow> helper_rank c = 6"
  by (cases c) simp_all

lemma conditioning_rank: "is_conditioning_call c \<longleftrightarrow> helper_rank c \<in> {8, 9}"
  by (cases c) simp_all

lemma answer_rank: "answer_of u c = Some a \<Longrightarrow> helper_rank c = 10"
  by (cases c) simp_all

lemma dispatch_calls: "c \<in> set (fst (dispatch u data X X_new y)) \<Longrightarrow> helper_rank c = 10"
  by (auto simp: dispatch_def Let_def calls_and_then split: if_splits)

lemma respond_calls:
  "c \<in> set (fst (classify_and_respond u db data X X_new y)) \<Longrightarrow> helper_rank c = 10"
  by (auto simp: classify_and_respond_def calls_and_then dispatch_calls
      split: if_splits prod.splits option.splits)

lemma condition_calls:
  "c \<in> set (fst (condition_and_classify u db data rd X y macs)) \<Longrightarrow> 6 \<le> helper_rank c"
  by (auto simp: condition_and_classify_def Let_def calls_and_then
      split: prod.splits dest: respond_calls)


lemma filter_chain_calls:
  "c \<in> set (fst (filter_chain u data rd fp)) \<Longrightarrow> helper_rank c \<in> {2, 3, 4}"
  by (auto simp: filter_chain_def Let_def calls_and_then split: if_splits option.splits)

subsection \<open>The empty query vector\<close>

lemma respond_empty_query:
  "nd_size X_new = 0 \<Longrightarrow>
     classify_and_respond u db data X X_new y =
       ([], Inl (ValueError ''Received data is empty. Check the input data.''))"
  by (simp add: classify_and_respond_def raise_def)

lemma empty_query_condition:
  assumes "Value_scaling X1 Xn1 m s \<in> set (fst (condition_and_classify u db data rd X y macs))"
      and "value_scaling u X1 Xn1 m s = Inr (X2, Xn2)" and "nd_size Xn2 = 0"
  shows "snd (condition_and_classify u db data rd X y macs) =
           Inl (ValueError ''Received data is empty. Check the input data.'')
     \<and> (\<forall>c\<in>set (fst (condition_and_classify u db data rd X y macs)). helper_rank c \<noteq> 10)"
  using assms
  by (auto simp: condition_and_classify_def Let_def calls_and_then snd_and_then fst_and_then
        respond_empty_query
      split: prod.splits sum.splits dest: respond_calls)

lemma empty_query_train:
  assumes "Value_scaling X1 Xn1 m s \<in> set (fst (train_and_classify u db data rd fp))"
      and "value_scaling u X1 Xn1 m s = Inr (X2, Xn2)" and "nd_size Xn2 = 0"
  shows "snd (train_and_classify u db data rd fp) =
           Inl (ValueError ''Received data is empty. Check the input data.'')
     \<and> (\<forall>c\<in>set (fst (train_and_classify u db data rd fp)). helper_rank c \<noteq> 10)"
  using assms
  by (auto simp: train_and_classify_def calls_and_then snd_and_then fst_and_then
      split: prod.splits sum.splits if_splits dest: empty_query_condition)

text \<open>
  Claim C4. When the call of \<^verbatim>\<open>value_scaling\<close> (which follows the threshold) hands back
  a query vector without cells, \<^verbatim>\<open>predict_room\<close> raises the \<^verbatim>\<open>ValueError\<close> of
  line 195, so the request ends with an exception and without a prediction, and the run
  contains no call of a classifier.
\<close>

theorem empty_query_is_fatal:
  assumes "Value_scaling X1 Xn1 m s \<in> set (fst (predict_room u db data))"
      and "value_scaling u X1 Xn1 m s = Inr (X2, Xn2)" and "nd_size Xn2 = 0"
  shows "snd (predict_room u db data) =
           Inl (ValueError ''Received data is empty. Check the input data.'')
     \<and> (\<forall>c\<in>set (fst (predict_room u db data)). \<not> is_classifier_call c)"
  using assms
  by (auto simp: predict_room_def Let_def calls_and_then snd_and_then fst_and_then classifier_rank
      split: prod.splits sum.splits if_splits dest: empty_query_train filter_chain_calls)

subsection \<open>The empty training matrix\<close>

lemma nd_size_zero: "nd_size X = 0 \<longleftrightarrow> X = [] \<or> (\<forall>row\<in>set X. row = [])"
  by (auto simp: nd_size_def)

lemma empty_training_train:
  assumes "Prepare_data fp' \<in> set (fst (train_and_classify u db data rd fp))"
      and "prepare_data u fp' = Inr (X, y, macs)" and "nd_size X = 0 \<or> y = []"
  shows "train_and_classify u db data rd fp =
           ([Prepare_data fp'], Inr (ErrorTuple ''Training data is empty. Check the input data.'' 400))"
  using assms
  by (auto simp: train_and_classify_def calls_and_then and_then_def
      split: prod.splits sum.splits if_splits dest: condition_calls)

text \<open>
  When \<^verbatim>\<open>prepare_data\<close> hands back a feature matrix with no row or with no column
  (or an empty label vector), \<^verbatim>\<open>predict_room\<close> returns the pair of line 185:
  \<^verbatim>\<open>prepare_data\<close> is the last helper called, the run contains no call of the
  imputation, of the conditioning or of a classifier, and the result is not a prediction.
  It is a value returned, not an exception raised.
\<close>

lemma empty_training_stops:
  assumes "Prepare_data fp \<in> set (fst (predict_room u db data))"
      and "prepare_data u fp = Inr (X, y, macs)"
      and "X = [] \<or> (\<forall>row\<in>set X. row = []) \<or> y = []"
  shows "snd (predict_room u db data) =
           Inr (ErrorTuple ''Training data is empty. Check the input data.'' 400)
     \<and> last (fst (predict_room u db data)) = Prepare_data fp
     \<and> (\<forall>c\<in>set (fst (predict_room u db data)).
           \<not> is_imputation_call c \<and> \<not> is_conditioning_call c \<and> \<not> is_classifier_call c)"
proof -
  have empty: "nd_size X = 0 \<or> y = []"
    using assms(3) by (auto simp: nd_size_zero)
  show ?thesis
    using assms(1,2) empty
    by (auto simp: predict_room_def Let_def calls_and_then snd_and_then fst_and_then
          classifier_rank imputation_rank conditioning_rank
        split: prod.splits sum.splits if_splits
        dest: empty_training_train filter_chain_calls)
qed

subsection \<open>The dispatch\<close>

lemma dispatch_answer:
  assumes "snd (dispatch u data X X_new y) = Inr (bound, v)"
  shows "(bound = None \<longleftrightarrow> \<not> recognised (algorithm data))
     \<and> (algorithm data = Some ''knn_sorensen'' \<or> algorithm data = Some ''knn_euclidean'' \<or>
         algorithm data = Some ''random_forest'' \<longrightarrow> v = - 1)
     \<and> (\<forall>p d. bound = Some (p, d) \<longrightarrow>
           (\<exists>c\<in>set (fst (dispatch u data X X_new y)). answer_of u c = Some (p, d)))
     \<and> (\<forall>p d. bound = Some (p, d) \<longrightarrow>
           algorithm data = Some ''svm_linear'' \<or> algorithm data = Some ''svm_rbf'' \<longrightarrow>
           (\<exists>kern. Svm X X_new y (c_value data) kern (gamma_value data)
                      \<in> set (fst (dispatch u data X X_new y))
                  \<and> svm u X X_new y (c_value data) kern (gamma_value data) = Inr (p, d, v)))"
  using assms
  by (auto simp: dispatch_def Let_def recognised_def fst_and_then snd_and_then
      split: if_splits sum.splits prod.splits)

lemma dispatch_unrecognised:
  "\<not> recognised (algorithm data) \<Longrightarrow> dispatch u data X X_new y = ([], Inr (None, - 1))"
  by (simp add: dispatch_def recognised_def done_with_def)

lemma dispatch_called:
  assumes "c \<in> set (fst (dispatch u data X X_new y))" and "answer_of u c = Some (p, d)"
  shows "\<exists>v. snd (dispatch u data X X_new y) = Inr (Some (p, d), v)"
  using assms
  by (auto simp: dispatch_def Let_def fst_and_then snd_and_then
      split: if_splits sum.splits prod.splits)

subsection \<open>Successful predictions\<close>

lemma respond_success:
  assumes "snd (classify_and_respond u db data X X_new y) = Inr r"
  obtains p d v where "r = Prediction (handle_get_room_name_by_id p db) d v"
    and "snd (dispatch u data X X_new y) = Inr (Some (p, d), v)"
    and "fst (classify_and_respond u db data X X_new y) = fst (dispatch u data X X_new y)"
  using assms
  by (auto simp: classify_and_respond_def snd_and_then fst_and_then Let_def
      split: if_splits sum.splits prod.splits option.splits)

lemma condition_success:
  assumes "snd (condition_and_classify u db data rd X y macs) = Inr r"
  obtains X2 Xn2 where "snd (classify_and_respond u db data X2 Xn2 y) = Inr r"
    and "set (fst (classify_and_respond u db data X2 Xn2 y))
           \<subseteq> set (fst (condition_and_classify u db data rd X y macs))"
  using assms
  by (auto simp: condition_and_classify_def snd_and_then fst_and_then Let_def
      split: sum.splits prod.splits)

lemma train_success:
  assumes "snd (train_and_classify u db data rd fp) = Inr (Prediction n d v)"
  obtains X2 Xn2 y where "snd (classify_and_respond u db data X2 Xn2 y) = Inr (Prediction n d v)"
    and "set (fst (classify_and_respond u db data X2 Xn2 y))
           \<subseteq> set (fst (train_and_classify u db data rd fp))"
proof -
  from assms obtain X y macs where
    r: "snd (condition_and_classify u db data rd X y macs) = Inr (Prediction n d v)"
    and s: "set (fst (condition_and_classify u db data rd X y macs))
           \<subseteq> set (fst (train_and_classify u db data rd fp))"
    by (auto simp: train_and_classify_def snd_and_then fst_and_then
        split: sum.splits prod.splits if_splits)
  obtain X2 Xn2 where a: "snd (classify_and_respond u db data X2 Xn2 y) = Inr (Prediction n d v)"
    and b: "set (fst (classify_and_respond u db data X2 Xn2 y))
           \<subseteq> set (fst (condition_and_classify u db data rd X y macs))"
    by (rule condition_success [OF r])
  show thesis by (rule that [OF a subset_trans [OF b s]])
qed

lemma predict_success:
  assumes "snd (predict_room u db data) = Inr (Prediction n d v)"
  obtains X2 Xn2 y where "snd (classify_and_respond u db data X2 Xn2 y) = Inr (Prediction n d v)"
    and "set (fst (classify_and_respond u db data X2 Xn2 y))
           \<subseteq> set (fst (predict_room u db data))"
proof -
  from assms obtain rd fp where
    r: "snd (train_and_classify u db data rd fp) = Inr (Prediction n d v)"
    and s: "set (fst (train_and_classify u db data rd fp)) \<subseteq> set (fst (predict_room u db data))"
    by (auto simp: predict_room_def Let_def snd_and_then fst_and_then
        split: sum.splits prod.splits if_splits)
  obtain X2 Xn2 y where a: "snd (classify_and_respond u db data X2 Xn2 y) = Inr (Prediction n d v)"
    and b: "set (fst (classify_and_respond u db data X2 Xn2 y))
           \<subseteq> set (fst (train_and_classify u db data rd fp))"
    by (rule train_success [OF r])
  show thesis by (rule that [OF a subset_trans [OF b s]])
qed

text \<open>
  Claim C7. In every response that is a prediction, the algorithm name is one of the
  five of the dispatch; for \<^verbatim>\<open>knn_sorensen\<close>, \<^verbatim>\<open>knn_euclidean\<close> and
  \<^verbatim>\<open>random_forest\<close> the field \<^verbatim>\<open>optional_value\<close> is \<open>-1\<close>; for \<^verbatim>\<open>svm_linear\<close>
  and \<^verbatim>\<open>svm_rbf\<close> it is the third component of what the call of \<^verbatim>\<open>svm\<close> in
  that run handed back, next to the distance of the response.
\<close>

theorem optional_value_sentinel:
  assumes "snd (predict_room u db data) = Inr (Prediction n d v)"
  shows "recognised (algorithm data)
     \<and> (algorithm data = Some ''knn_sorensen'' \<or> algorithm data = Some ''knn_euclidean'' \<or>
        algorithm data = Some ''random_forest'' \<longrightarrow> v = - 1)
     \<and> (algorithm data = Some ''svm_linear'' \<or> algorithm data = Some ''svm_rbf'' \<longrightarrow>
          (\<exists>X X_new y kern p.
             Svm X X_new y (c_value data) kern (gamma_value data)
               \<in> set (fst (predict_room u db data))
           \<and> svm u X X_new y (c_value data) kern (gamma_value data) = Inr (p, d, v)))"
proof -
  obtain X X_new y where
    r: "snd (classify_and_respond u db data X X_new y) = Inr (Prediction n d v)"
    and s: "set (fst (classify_and_respond u db data X X_new y))
           \<subseteq> set (fst (predict_room u db data))"
    by (rule predict_success [OF assms])
  obtain p d' v' where
    eq: "Prediction n d v = Prediction (handle_get_room_name_by_id p db) d' v'"
    and disp: "snd (dispatch u data X X_new y) = Inr (Some (p, d'), v')"
    and calls: "fst (classify_and_respond u db data X X_new y) = fst (dispatch u data X X_new y)"
    by (rule respond_success [OF r])
  from eq have dv: "d' = d" "v' = v" by simp_all
  note ans = dispatch_answer [OF disp, unfolded dv]
  have rec: "recognised (algorithm data)"
    using ans by simp
  have knn: "algorithm data = Some ''knn_sorensen'' \<or> algorithm data = Some ''knn_euclidean'' \<or>
        algorithm data = Some ''random_forest'' \<longrightarrow> v = - 1"
    using ans by simp
  have svm: "algorithm data = Some ''svm_linear'' \<or> algorithm data = Some ''svm_rbf'' \<longrightarrow>
          (\<exists>X X_new y kern p.
             Svm X X_new y (c_value data) kern (gamma_value data)
               \<in> set (fst (predict_room u db data))
           \<and> svm u X X_new y (c_value data) kern (gamma_value data) = Inr (p, d, v))"
  proof
    assume alg: "algorithm data = Some ''svm_linear'' \<or> algorithm data = Some ''svm_rbf''"
    with ans obtain kern where
      k: "Svm X X_new y (c_value data) kern (gamma_value data)
            \<in> set (fst (dispatch u data X X_new y))"
      and k': "svm u X X_new y (c_value data) kern (gamma_value data) = Inr (p, d, v)"
      by auto
    from k calls s have "Svm X X_new y (c_value data) kern (gamma_value data)
            \<in> set (fst (predict_room u db data))"
      by auto
    with k' show "\<exists>X X_new y kern p.
             Svm X X_new y (c_value data) kern (gamma_value data)
               \<in> set (fst (predict_room u db data))
           \<and> svm u X X_new y (c_value data) kern (gamma_value data) = Inr (p, d, v)"
      by blast
  qed
  from rec knn svm show ?thesis by (intro conjI)
qed

subsection \<open>The room-name lookup\<close>

lemma respond_called:
  assumes "c \<in> set (fst (classify_and_respond u db data X X_new y))"
      and "answer_of u c = Some (p, d)"
  shows "\<exists>v. snd (classify_and_respond u db data X X_new y) =
              Inr (Prediction (handle_get_room_name_by_id p db) d v)"
proof -
  from assms(1) have nz: "nd_size X_new \<noteq> 0" and c: "c \<in> set (fst (dispatch u data X X_new y))"
    by (auto simp: classify_and_respond_def fst_and_then
        split: if_splits sum.splits prod.splits option.splits)
  from dispatch_called [OF c assms(2)] obtain v where
    "snd (dispatch u data X X_new y) = Inr (Some (p, d), v)" by blast
  with nz show ?thesis
    by (auto simp: classify_and_respond_def snd_and_then)
qed

lemma condition_called:
  assumes "c \<in> set (fst (condition_and_classify u db data rd X y macs))"
      and "helper_rank c = 10"
  obtains X2 Xn2 where "c \<in> set (fst (classify_and_respond u db data X2 Xn2 y))"
    and "snd (condition_and_classify u db data rd X y macs) =
         snd (classify_and_respond u db data X2 Xn2 y)"
  using assms
  by (auto simp: condition_and_classify_def snd_and_then calls_and_then Let_def
      split: sum.splits prod.splits)

lemma train_called:
  assumes "c \<in> set (fst (train_and_classify u db data rd fp))"
      and "helper_rank c = 10"
  obtains X2 Xn2 y where "c \<in> set (fst (classify_and_respond u db data X2 Xn2 y))"
    and "snd (train_and_classify u db data rd fp) =
         snd (classify_and_respond u db data X2 Xn2 y)"
proof -
  from assms have "\<exists>X y macs.
    c \<in> set (fst (condition_and_classify u db data rd X y macs)) \<and>
    snd (train_and_classify u db data rd fp) =
     snd (condition_and_classify u db data rd X y macs)"
    by (fastforce simp: train_and_classify_def snd_and_then calls_and_then
        split: sum.splits prod.splits if_splits)
  then obtain X y macs where a: "c \<in> set (fst (condition_and_classify u db data rd X y macs))"
    and b: "snd (train_and_classify u db data rd fp) =
     snd (condition_and_classify u db data rd X y macs)" by blast
  obtain X2 Xn2 where c2: "c \<in> set (fst (classify_and_respond u db data X2 Xn2 y))"
    and d2: "snd (condition_and_classify u db data rd X y macs) =
         snd (classify_and_respond u db data X2 Xn2 y)"
    by (rule condition_called [OF a assms(2)])
  show thesis by (rule that [OF c2 trans [OF b d2]])
qed

lemma predict_called:
  assumes "c \<in> set (fst (predict_room u db data))"
      and "helper_rank c = 10"
  obtains X2 Xn2 y where "c \<in> set (fst (classify_and_respond u db data X2 Xn2 y))"
    and "snd (predict_room u db data) = snd (classify_and_respond u db data X2 Xn2 y)"
proof -
  from assms have "\<exists>rd fp.
    c \<in> set (fst (train_and_classify u db data rd fp)) \<and>
    snd (predict_room u db data) = snd (train_and_classify u db data rd fp)"
    by (fastforce simp: predict_room_def Let_def snd_and_then calls_and_then
        split: sum.splits prod.splits if_splits dest: filter_chain_calls)
  then obtain rd fp where a: "c \<in> set (fst (train_and_classify u db data rd fp))"
    and b: "snd (predict_room u db data) = snd (train_and_classify u db data rd fp)" by blast
  obtain X2 Xn2 y where c2: "c \<in> set (fst (classify_and_respond u db data X2 Xn2 y))"
    and d2: "snd (train_and_classify u db data rd fp) =
         snd (classify_and_respond u db data X2 Xn2 y)"
    by (rule train_called [OF a assms(2)])
  show thesis by (rule that [OF c2 trans [OF b d2]])
qed

lemma lookup_unknown:
  "(\<forall>r\<in>set (rooms db). Room.room_id r \<noteq> rid) \<Longrightarrow> handle_get_room_name_by_id rid db = ''Unknown''"
proof -
  assume "\<forall>r\<in>set (rooms db). Room.room_id r \<noteq> rid"
  then have "find (\<lambda>r. Room.room_id r = rid) (rooms db) = None"
    by (simp add: find_None_iff)
  then show ?thesis by (simp add: handle_get_room_name_by_id_def)
qed

lemma lookup_known:
  assumes "r \<in> set (rooms db)" and "Room.room_id r = rid"
      and "distinct (map Room.room_id (rooms db))"
  shows "handle_get_room_name_by_id rid db = Room.room_name r"
proof -
  from assms(1,2) obtain r' where f: "find (\<lambda>r. Room.room_id r = rid) (rooms db) = Some r'"
    by (cases "find (\<lambda>r. Room.room_id r = rid) (rooms db)") (auto simp: find_None_iff)
  then have "r' \<in> set (rooms db)" "Room.room_id r' = rid"
    by (auto simp: find_Some_iff)
  with assms have "r' = r"
    by (metis distinct_map inj_onD)
  with f show ?thesis by (simp add: handle_get_room_name_by_id_def)
qed

text \<open>
  Claim C8. The lookup answers \<^verbatim>\<open>"Unknown"\<close> for an identifier that no row of the
  rooms table carries, and the name of the row that carries it otherwise (identifiers
  being a primary key); and whenever a classifier call of a run hands back the
  identifier \<open>rid\<close> with the distance \<open>d\<close>, the run ends with the prediction that
  carries the looked-up name and \<open>d\<close>, whether or not \<open>rid\<close> has a row.
\<close>

theorem unknown_room_not_fatal:
  "((\<forall>r\<in>set (rooms db). Room.room_id r \<noteq> rid) \<longrightarrow>
       handle_get_room_name_by_id rid db = ''Unknown'')
   \<and> (\<forall>r\<in>set (rooms db). Room.room_id r = rid \<longrightarrow> distinct (map Room.room_id (rooms db)) \<longrightarrow>
         handle_get_room_name_by_id rid db = Room.room_name r)
   \<and> (\<forall>c\<in>set (fst (predict_room u db data)). answer_of u c = Some (rid, d) \<longrightarrow>
         (\<exists>v. snd (predict_room u db data) =
               Inr (Prediction (handle_get_room_name_by_id rid db) d v)))"
proof (intro conjI ballI impI)
  fix c assume c: "c \<in> set (fst (predict_room u db data))" and a: "answer_of u c = Some (rid, d)"
  obtain X X_new y where
    c': "c \<in> set (fst (classify_and_respond u db data X X_new y))"
    and e: "snd (predict_room u db data) = snd (classify_and_respond u db data X X_new y)"
    by (rule predict_called [OF c answer_rank [OF a]])
  from respond_called [OF c' a] e show
    "\<exists>v. snd (predict_room u db data) = Inr (Prediction (handle_get_room_name_by_id rid db) d v)"
    by simp
next
  assume "\<forall>r\<in>set (rooms db). Room.room_id r \<noteq> rid"
  then show "handle_get_room_name_by_id rid db = ''Unknown''" by (rule lookup_unknown)
next
  fix r assume "r \<in> set (rooms db)" "Room.room_id r = rid" "distinct (map Room.room_id (rooms db))"
  then show "handle_get_room_name_by_id rid db = Room.room_name r" by (rule lookup_known)
qed

subsection \<open>Runs on the sample data\<close>

lemma canned_simps [simp]:
  "process_received_data canned_utils = Inr"
  "process_fingerprint_data canned_utils = Inr"
  "remove_unreceived_bssids canned_utils = (\<lambda>rows rd. Inr rows)"
  "remove_non_eduroam_bssids canned_utils = (\<lambda>rows. Inr rows)"
  "remove_rare_routers canned_utils = (\<lambda>rows t. Inr rows)"
  "prepare_data canned_utils =
     (\<lambda>rows. if rows = [] then Inr ([], [], []) else Inr (sample_X, sample_y, sample_macs))"
  "handle_missing_values canned_utils = (\<lambda>X macs rd strategy. Inr X)"
  "prepare_received_data canned_utils = (\<lambda>rd macs. Inr sample_X_new)"
  "handle_router_rssi_threshold canned_utils = (\<lambda>X X_new t. Inr (X, X_new))"
  "value_scaling canned_utils = (\<lambda>X X_new m strategy. Inr (X, X_new))"
  "knn canned_utils = (\<lambda>X X_new y k metric w. Inr (1, 4))"
  "random_forest canned_utils = (\<lambda>X X_new y n depth. Inr (1, 1 / 4))"
  "svm canned_utils = (\<lambda>X X_new y c kern g. Inr (1, 1 / 4, 3 / 2))"
  by (simp_all add: canned_utils_def)

lemma sample_request_simps [simp]:
  "PredictData.routers (sample_request rs alg) = rs"
  "ignore_measurements (sample_request rs alg) = None"
  "use_remove_unreceived_bssids (sample_request rs alg) = Some True"
  "handle_missing_values_strategy (sample_request rs alg) = Some ''use_received''"
  "router_selection (sample_request rs alg) = Some ''all''"
  "router_presence_threshold (sample_request rs alg) = Some 0"
  "value_scaling_strategy (sample_request rs alg) = Some ''none''"
  "router_rssi_threshold (sample_request rs alg) = Some (- 100)"
  "algorithm (sample_request rs alg) = Some alg"
  "k_value (sample_request rs alg) = Some 5"
  "weights (sample_request rs alg) = Some ''uniform''"
  "n_estimators (sample_request rs alg) = Some 300"
  "c_value (sample_request rs alg) = Some 1"
  "gamma_value (sample_request rs alg) = Some 1"
  "max_depth (sample_request rs alg) = None"
  by (simp_all add: sample_request_def)

lemma collect_sample:
  "collect_readings sample_db None (measurements sample_db) = Inr sample_rows"
  by (simp add: sample_db_def sample_rows_def)

lemma sample_facts [simp]:
  "sample_scan \<noteq> []" "sample_rows \<noteq> []" "sample_y \<noteq> []"
  "nd_size sample_X = 4" "nd_size sample_X_new = 2" "length sample_y = 2"
  "nd_min sample_X = Inr (- 80)" "nd_min sample_X_new = Inr (- 58)"
  by (simp_all add: sample_scan_def sample_rows_def sample_X_def sample_X_new_def sample_y_def
      nd_size_def nd_min_def)

lemma nd_size_Nil [simp]: "nd_size [] = 0"
  by (simp add: nd_size_def)

lemma sample_lookup: "handle_get_room_name_by_id 1 sample_db = ''101''"
  by (simp add: handle_get_room_name_by_id_def sample_db_def)

lemmas block_defs = predict_room_def filter_chain_def train_and_classify_def
  condition_and_classify_def classify_and_respond_def dispatch_def

lemma and_then_pair:
  "and_then (cs, Inr x) f = (cs @ fst (f x), snd (f x))"
  "and_then (cs, Inl e) f = (cs, Inl e)"
  by (simp_all add: and_then_def)

lemmas eval_defs = block_defs and_then_pair invoke_def quiet_def done_with_def raise_def Let_def

lemma run_knn:
  "predict_room canned_utils sample_db (sample_request sample_scan ''knn_euclidean'') =
     ([Process_received_data sample_scan, Process_fingerprint_data sample_rows,
       Remove_unreceived_bssids sample_rows sample_scan, Prepare_data sample_rows,
       Handle_missing_values sample_X sample_macs sample_scan (Some ''use_received''),
       Prepare_received_data sample_scan sample_macs,
       Handle_router_rssi_threshold sample_X sample_X_new (Some (- 100)),
       Value_scaling sample_X sample_X_new (- 80) (Some ''none''),
       Knn sample_X sample_X_new sample_y (Some 5) ''euclidean'' (Some ''uniform'')],
      Inr (Prediction ''101'' 4 (- 1)))"
  by (simp add: eval_defs collect_sample sample_lookup)

lemma run_unknown:
  "predict_room canned_utils sample_db (sample_request sample_scan ''unknown_algo'') =
     ([Process_received_data sample_scan, Process_fingerprint_data sample_rows,
       Remove_unreceived_bssids sample_rows sample_scan, Prepare_data sample_rows,
       Handle_missing_values sample_X sample_macs sample_scan (Some ''use_received''),
       Prepare_received_data sample_scan sample_macs,
       Handle_router_rssi_threshold sample_X sample_X_new (Some (- 100)),
       Value_scaling sample_X sample_X_new (- 80) (Some ''none'')],
      Inl (UnboundLocalError ''predicted_room''))"
  by (simp add: eval_defs collect_sample sample_lookup)

subsection \<open>The scaling parameter\<close>

lemma nd_min_Min:
  assumes "nd_min X = Inr v"
  shows "concat X \<noteq> [] \<and> v = Min (set (concat X))"
proof (cases "concat X")
  case Nil
  with assms show ?thesis by (simp add: nd_min_def)
next
  case (Cons c cs)
  with assms have "v = fold min cs c" by (simp add: nd_min_def)
  also have "\<dots> = Min (set (c # cs))" by (rule Min.set_eq_fold [symmetric])
  finally show ?thesis unfolding Cons by simp
qed

lemma min_rssi_condition:
  assumes "Value_scaling Xt Xq m s \<in> set (fst (condition_and_classify u db data rd X0 y macs))"
  shows "\<exists>X Xn X_min Xn_min.
       handle_missing_values u X0 macs rd (handle_missing_values_strategy data) = Inr X
     \<and> prepare_received_data u rd macs = Inr Xn
     \<and> nd_min X = Inr X_min \<and> nd_min Xn = Inr Xn_min \<and> m = min X_min Xn_min
     \<and> handle_router_rssi_threshold u X Xn (router_rssi_threshold data) = Inr (Xt, Xq)
     \<and> s = value_scaling_strategy data
     \<and> filter (\<lambda>c. 6 \<le> helper_rank c \<and> helper_rank c \<le> 9)
          (fst (condition_and_classify u db data rd X0 y macs)) =
        [Handle_missing_values X0 macs rd (handle_missing_values_strategy data),
         Prepare_received_data rd macs,
         Handle_router_rssi_threshold X Xn (router_rssi_threshold data),
         Value_scaling Xt Xq m s]"
  using assms
  by (auto simp: condition_and_classify_def Let_def calls_and_then fst_and_then
        filter_empty_conv
      split: prod.splits sum.splits dest: respond_calls)

lemma run_svm:
  "predict_room canned_utils sample_db (sample_request sample_scan ''svm_rbf'') =
     ([Process_received_data sample_scan, Process_fingerprint_data sample_rows,
       Remove_unreceived_bssids sample_rows sample_scan, Prepare_data sample_rows,
       Handle_missing_values sample_X sample_macs sample_scan (Some ''use_received''),
       Prepare_received_data sample_scan sample_macs,
       Handle_router_rssi_threshold sample_X sample_X_new (Some (- 100)),
       Value_scaling sample_X sample_X_new (- 80) (Some ''none''),
       Svm sample_X sample_X_new sample_y (Some 1) ''rbf'' (Some 1)],
      Inr (Prediction ''101'' (1 / 4) (3 / 2)))"
  by (simp add: eval_defs collect_sample sample_lookup)

lemma run_empty_query:
  "predict_room (canned_utils\<lparr>value_scaling := \<lambda>X X_new m strategy. Inr (X, [])\<rparr>) sample_db
       (sample_request sample_scan ''knn_euclidean'') =
     ([Process_received_data sample_scan, Process_fingerprint_data sample_rows,
       Remove_unreceived_bssids sample_rows sample_scan, Prepare_data sample_rows,
       Handle_missing_values sample_X sample_macs sample_scan (Some ''use_received''),
       Prepare_received_data sample_scan sample_macs,
       Handle_router_rssi_threshold sample_X sample_X_new (Some (- 100)),
       Value_scaling sample_X sample_X_new (- 80) (Some ''none'')],
      Inl (ValueError ''Received data is empty. Check the input data.''))"
  by (simp add: eval_defs collect_sample)

lemma collect_no_rooms:
  "collect_readings (sample_db\<lparr>rooms := []\<rparr>) None (measurements sample_db) = Inr sample_rows"
  by (simp add: sample_db_def sample_rows_def)

lemma run_no_rooms:
  "predict_room canned_utils (sample_db\<lparr>rooms := []\<rparr>)
       (sample_request sample_scan ''knn_euclidean'') =
     ([Process_received_data sample_scan, Process_fingerprint_data sample_rows,
       Remove_unreceived_bssids sample_rows sample_scan, Prepare_data sample_rows,
       Handle_missing_values sample_X sample_macs sample_scan (Some ''use_received''),
       Prepare_received_data sample_scan sample_macs,
       Handle_router_rssi_threshold sample_X sample_X_new (Some (- 100)),
       Value_scaling sample_X sample_X_new (- 80) (Some ''none''),
       Knn sample_X sample_X_new sample_y (Some 5) ''euclidean'' (Some ''uniform'')],
      Inr (Prediction ''Unknown'' 4 (- 1)))"
  by (simp add: eval_defs collect_no_rooms handle_get_room_name_by_id_def)

theorem empty_query_is_fatal_witness:
  "Value_scaling sample_X sample_X_new (- 80) (Some ''none'')
     \<in> set (fst (predict_room (canned_utils\<lparr>value_scaling := \<lambda>X X_new m strategy. Inr (X, [])\<rparr>)
                   sample_db (sample_request sample_scan ''knn_euclidean'')))
   \<and> value_scaling (canned_utils\<lparr>value_scaling := \<lambda>X X_new m strategy. Inr (X, [])\<rparr>)
        sample_X sample_X_new (- 80) (Some ''none'') = Inr (sample_X, [])
   \<and> nd_size [] = 0
   \<and> snd (predict_room (canned_utils\<lparr>value_scaling := \<lambda>X X_new m strategy. Inr (X, [])\<rparr>)
             sample_db (sample_request sample_scan ''knn_euclidean'')) =
       Inl (ValueError ''Received data is empty. Check the input data.'')
   \<and> filter is_classifier_call
        (fst (predict_room
                (canned_utils\<lparr>value_scaling := \<lambda>X X_new m strategy. Inr (X, [])\<rparr>)
                sample_db (sample_request sample_scan ''knn_euclidean''))) = []"
proof -
  let ?u = "canned_utils\<lparr>value_scaling := \<lambda>X X_new m strategy. Inr (X, [])\<rparr>"
  let ?run = "predict_room ?u sample_db (sample_request sample_scan ''knn_euclidean'')"
  have h1: "Value_scaling sample_X sample_X_new (- 80) (Some ''none'') \<in> set (fst ?run)"
    by (simp add: run_empty_query)
  have h2: "value_scaling ?u sample_X sample_X_new (- 80) (Some ''none'') = Inr (sample_X, [])"
    by simp
  have h3: "nd_size [] = 0"
    by simp
  note t = empty_query_is_fatal [OF h1 h2 h3]
  from t have "filter is_classifier_call (fst ?run) = []"
    by (simp add: filter_empty_conv)
  with t h1 h2 h3 show ?thesis
    by (intro conjI) simp_all
qed

text \<open>
  Claim C2. A request with two routers, on a database without measurements: the matrix
  builder is given no reading and answers with empty arrays, and \<^verbatim>\<open>predict_room\<close> stops
  after that call. What it produces is not an exception: line 185 returns the pair of an
  error dictionary and 400 as the value of the handler, where the other two exits
  (lines 131 and 195) raise.
\<close>

theorem empty_training_returns_pair:
  "predict_room canned_utils (sample_db\<lparr>measurements := []\<rparr>)
       (sample_request sample_scan ''knn_euclidean'') =
     ([Process_received_data sample_scan, Process_fingerprint_data [],
       Remove_unreceived_bssids [] sample_scan, Prepare_data []],
      Inr (ErrorTuple ''Training data is empty. Check the input data.'' 400))"
  by (simp add: eval_defs)

theorem optional_value_sentinel_witness:
  "snd (predict_room canned_utils sample_db (sample_request sample_scan ''knn_euclidean'')) =
     Inr (Prediction ''101'' 4 (- 1))
   \<and> algorithm (sample_request sample_scan ''knn_euclidean'') = Some ''knn_euclidean''
   \<and> snd (predict_room canned_utils sample_db (sample_request sample_scan ''svm_rbf'')) =
     Inr (Prediction ''101'' (1 / 4) (3 / 2))
   \<and> algorithm (sample_request sample_scan ''svm_rbf'') = Some ''svm_rbf''
   \<and> recognised (algorithm (sample_request sample_scan ''svm_rbf''))
   \<and> (\<exists>X X_new y kern p.
         Svm X X_new y (c_value (sample_request sample_scan ''svm_rbf'')) kern
             (gamma_value (sample_request sample_scan ''svm_rbf''))
           \<in> set (fst (predict_room canned_utils sample_db (sample_request sample_scan ''svm_rbf'')))
       \<and> svm canned_utils X X_new y (c_value (sample_request sample_scan ''svm_rbf'')) kern
             (gamma_value (sample_request sample_scan ''svm_rbf'')) = Inr (p, 1 / 4, 3 / 2))"
proof -
  have k: "snd (predict_room canned_utils sample_db (sample_request sample_scan ''knn_euclidean'')) =
     Inr (Prediction ''101'' 4 (- 1))"
    by (simp add: run_knn)
  have s: "snd (predict_room canned_utils sample_db (sample_request sample_scan ''svm_rbf'')) =
     Inr (Prediction ''101'' (1 / 4) (3 / 2))"
    by (simp add: run_svm)
  have a: "algorithm (sample_request sample_scan ''svm_rbf'') = Some ''svm_rbf''"
          "algorithm (sample_request sample_scan ''knn_euclidean'') = Some ''knn_euclidean''"
    by simp_all
  from optional_value_sentinel [OF k] optional_value_sentinel [OF s] k s a show ?thesis
    by (intro conjI) simp_all
qed

theorem unknown_room_not_fatal_witness:
  "rooms (sample_db\<lparr>rooms := []\<rparr>) = []
   \<and> handle_get_room_name_by_id 1 (sample_db\<lparr>rooms := []\<rparr>) = ''Unknown''
   \<and> hd (rooms sample_db) \<in> set (rooms sample_db)
   \<and> Room.room_id (hd (rooms sample_db)) = 1
   \<and> distinct (map Room.room_id (rooms sample_db))
   \<and> handle_get_room_name_by_id 1 sample_db = Room.room_name (hd (rooms sample_db))
   \<and> Knn sample_X sample_X_new sample_y (Some 5) ''euclidean'' (Some ''uniform'')
       \<in> set (fst (predict_room canned_utils (sample_db\<lparr>rooms := []\<rparr>)
                     (sample_request sample_scan ''knn_euclidean'')))
   \<and> answer_of canned_utils
        (Knn sample_X sample_X_new sample_y (Some 5) ''euclidean'' (Some ''uniform'')) = Some (1, 4)
   \<and> (\<exists>v. snd (predict_room canned_utils (sample_db\<lparr>rooms := []\<rparr>)
                  (sample_request sample_scan ''knn_euclidean'')) =
            Inr (Prediction ''Unknown'' 4 v))"
proof -
  let ?db = "sample_db\<lparr>rooms := []\<rparr>"
  let ?data = "sample_request sample_scan ''knn_euclidean''"
  let ?c = "Knn sample_X sample_X_new sample_y (Some 5) ''euclidean'' (Some ''uniform'')"
  note t1 = unknown_room_not_fatal [of ?db 1 canned_utils ?data 4]
  note t2 = unknown_room_not_fatal [of sample_db 1 canned_utils ?data 4]
  have none: "\<forall>r\<in>set (rooms ?db). Room.room_id r \<noteq> 1"
    by simp
  have c: "?c \<in> set (fst (predict_room canned_utils ?db ?data))"
    by (simp add: run_no_rooms)
  have a: "answer_of canned_utils ?c = Some (1, 4)"
    by simp
  have r: "hd (rooms sample_db) \<in> set (rooms sample_db)" "Room.room_id (hd (rooms sample_db)) = 1"
    "distinct (map Room.room_id (rooms sample_db))"
    by (simp_all add: sample_db_def)
  from t1 none have u: "handle_get_room_name_by_id 1 ?db = ''Unknown''"
    by blast
  from t1 c a have "\<exists>v. snd (predict_room canned_utils ?db ?data) =
      Inr (Prediction (handle_get_room_name_by_id 1 ?db) 4 v)"
    by blast
  with u have p: "\<exists>v. snd (predict_room canned_utils ?db ?data) = Inr (Prediction ''Unknown'' 4 v)"
    by simp
  from t2 r have k: "handle_get_room_name_by_id 1 sample_db = Room.room_name (hd (rooms sample_db))"
    by blast
  have e: "rooms ?db = []"
    by simp
  from e u r k c a p show ?thesis
    by (intro conjI)
qed

subsection \<open>Reaching the feature matrix\<close>

lemma train_reached:
  assumes "c \<in> set (fst (train_and_classify u db data rd fp))" and "6 \<le> helper_rank c"
  obtains X0 y macs where "c \<in> set (fst (condition_and_classify u db data rd X0 y macs))"
    and "fst (train_and_classify u db data rd fp) =
         Prepare_data fp # fst (condition_and_classify u db data rd X0 y macs)"
    and "snd (train_and_classify u db data rd fp) =
         snd (condition_and_classify u db data rd X0 y macs)"
proof -
  from assms have "\<exists>X0 y macs.
      c \<in> set (fst (condition_and_classify u db data rd X0 y macs))
    \<and> fst (train_and_classify u db data rd fp) =
         Prepare_data fp # fst (condition_and_classify u db data rd X0 y macs)
    \<and> snd (train_and_classify u db data rd fp) =
         snd (condition_and_classify u db data rd X0 y macs)"
    by (fastforce simp: train_and_classify_def snd_and_then fst_and_then
        split: sum.splits prod.splits if_splits)
  with that show thesis by blast
qed

lemma predict_reached:
  assumes "c \<in> set (fst (predict_room u db data))" and "5 \<le> helper_rank c"
  obtains rd result fp0 fp where
        "process_received_data u (PredictData.routers data) = Inr rd"
    and "collect_readings db (ignore_measurements data) (measurements db) = Inr result"
    and "process_fingerprint_data u result = Inr fp0"
    and "snd (filter_chain u data rd fp0) = Inr fp"
    and "fst (predict_room u db data) =
           Process_received_data (PredictData.routers data) # Process_fingerprint_data result #
           fst (filter_chain u data rd fp0) @ fst (train_and_classify u db data rd fp)"
    and "snd (predict_room u db data) = snd (train_and_classify u db data rd fp)"
    and "c \<in> set (fst (train_and_classify u db data rd fp))"
proof -
  from assms have "\<exists>rd result fp0 fp.
        process_received_data u (PredictData.routers data) = Inr rd
    \<and> collect_readings db (ignore_measurements data) (measurements db) = Inr result
    \<and> process_fingerprint_data u result = Inr fp0
    \<and> snd (filter_chain u data rd fp0) = Inr fp
    \<and> fst (predict_room u db data) =
           Process_received_data (PredictData.routers data) # Process_fingerprint_data result #
           fst (filter_chain u data rd fp0) @ fst (train_and_classify u db data rd fp)
    \<and> snd (predict_room u db data) = snd (train_and_classify u db data rd fp)
    \<and> c \<in> set (fst (train_and_classify u db data rd fp))"
    by (fastforce simp: predict_room_def Let_def snd_and_then fst_and_then
        split: sum.splits prod.splits if_splits dest: filter_chain_calls)
  with that show thesis by blast
qed

lemma filter_none: "(\<forall>c\<in>set cs. \<not> P c) \<Longrightarrow> filter P cs = []"
  by (simp add: filter_empty_conv)

lemma filter_all: "(\<forall>c\<in>set cs. P c) \<Longrightarrow> filter P cs = cs"
  by (simp add: filter_id_conv)

text \<open>
  Claim C6. In a run that reaches the call of \<^verbatim>\<open>value_scaling\<close>, the value \<open>m\<close> passed
  as \<^verbatim>\<open>min_rssi_value\<close> is the least cell of the training matrix returned by the
  imputation and of the query vector returned by \<^verbatim>\<open>prepare_received_data\<close> taken
  together. These two arrays are the ones that go into the threshold afterwards, whose
  two results go into the one call of \<^verbatim>\<open>value_scaling\<close> together with \<open>m\<close>: from the
  imputation to the scaling the run makes exactly these four calls, in this order.
\<close>

theorem min_rssi_value_shared:
  assumes "Value_scaling Xt Xq m s \<in> set (fst (predict_room u db data))"
  shows "\<exists>X0 macs rd X Xn.
       handle_missing_values u X0 macs rd (handle_missing_values_strategy data) = Inr X
     \<and> prepare_received_data u rd macs = Inr Xn
     \<and> concat X \<noteq> [] \<and> concat Xn \<noteq> []
     \<and> m = Min (set (concat X) \<union> set (concat Xn))
     \<and> handle_router_rssi_threshold u X Xn (router_rssi_threshold data) = Inr (Xt, Xq)
     \<and> s = value_scaling_strategy data
     \<and> filter (\<lambda>c. 6 \<le> helper_rank c \<and> helper_rank c \<le> 9) (fst (predict_room u db data)) =
        [Handle_missing_values X0 macs rd (handle_missing_values_strategy data),
         Prepare_received_data rd macs,
         Handle_router_rssi_threshold X Xn (router_rssi_threshold data),
         Value_scaling Xt Xq m s]"
proof -
  let ?P = "\<lambda>c :: ('a, 'b) call. 6 \<le> helper_rank c \<and> helper_rank c \<le> 9"
  obtain rd result fp0 fp where
    pr: "fst (predict_room u db data) =
           Process_received_data (PredictData.routers data) # Process_fingerprint_data result #
           fst (filter_chain u data rd fp0) @ fst (train_and_classify u db data rd fp)"
    and ct: "Value_scaling Xt Xq m s \<in> set (fst (train_and_classify u db data rd fp))"
    by (rule predict_reached [OF assms]) simp
  obtain X0 y macs where
    cc: "Value_scaling Xt Xq m s \<in> set (fst (condition_and_classify u db data rd X0 y macs))"
    and tr: "fst (train_and_classify u db data rd fp) =
         Prepare_data fp # fst (condition_and_classify u db data rd X0 y macs)"
    by (rule train_reached [OF ct]) simp
  have "filter ?P (fst (filter_chain u data rd fp0)) = []"
    by (rule filter_none) (auto dest: filter_chain_calls)
  with pr tr have eq: "filter ?P (fst (predict_room u db data)) =
      filter ?P (fst (condition_and_classify u db data rd X0 y macs))"
    by simp
  from min_rssi_condition [OF cc] obtain X Xn X_min Xn_min where
    h: "handle_missing_values u X0 macs rd (handle_missing_values_strategy data) = Inr X"
       "prepare_received_data u rd macs = Inr Xn"
       "handle_router_rssi_threshold u X Xn (router_rssi_threshold data) = Inr (Xt, Xq)"
       "s = value_scaling_strategy data"
    and mins: "nd_min X = Inr X_min" "nd_min Xn = Inr Xn_min" "m = min X_min Xn_min"
    and calls: "filter ?P (fst (condition_and_classify u db data rd X0 y macs)) =
        [Handle_missing_values X0 macs rd (handle_missing_values_strategy data),
         Prepare_received_data rd macs,
         Handle_router_rssi_threshold X Xn (router_rssi_threshold data),
         Value_scaling Xt Xq m s]"
    by blast
  from nd_min_Min [OF mins(1)] nd_min_Min [OF mins(2)] have
    ne: "concat X \<noteq> []" "concat Xn \<noteq> []"
    and v: "X_min = Min (set (concat X))" "Xn_min = Min (set (concat Xn))"
    by blast+
  have "Min (set (concat X) \<union> set (concat Xn)) = min (Min (set (concat X))) (Min (set (concat Xn)))"
    using ne by (intro Min_Un) (simp_all del: set_concat)
  with mins(3) v have m: "m = Min (set (concat X) \<union> set (concat Xn))"
    by (simp del: set_concat)
  from h ne m calls eq show ?thesis
    by (intro exI [of _ X0] exI [of _ macs] exI [of _ rd] exI [of _ X] exI [of _ Xn] conjI)
       (simp_all del: set_concat)
qed

theorem min_rssi_value_shared_witness:
  "Value_scaling sample_X sample_X_new (- 80) (Some ''none'')
     \<in> set (fst (predict_room canned_utils sample_db (sample_request sample_scan ''knn_euclidean'')))
   \<and> (\<exists>X0 macs rd X Xn.
       handle_missing_values canned_utils X0 macs rd
         (handle_missing_values_strategy (sample_request sample_scan ''knn_euclidean'')) = Inr X
     \<and> prepare_received_data canned_utils rd macs = Inr Xn
     \<and> concat X \<noteq> [] \<and> concat Xn \<noteq> []
     \<and> - 80 = Min (set (concat X) \<union> set (concat Xn))
     \<and> handle_router_rssi_threshold canned_utils X Xn
         (router_rssi_threshold (sample_request sample_scan ''knn_euclidean'')) =
           Inr (sample_X, sample_X_new)
     \<and> Some ''none'' = value_scaling_strategy (sample_request sample_scan ''knn_euclidean'')
     \<and> filter (\<lambda>c. 6 \<le> helper_rank c \<and> helper_rank c \<le> 9)
          (fst (predict_room canned_utils sample_db (sample_request sample_scan ''knn_euclidean''))) =
        [Handle_missing_values X0 macs rd
           (handle_missing_values_strategy (sample_request sample_scan ''knn_euclidean'')),
         Prepare_received_data rd macs,
         Handle_router_rssi_threshold X Xn
           (router_rssi_threshold (sample_request sample_scan ''knn_euclidean'')),
         Value_scaling sample_X sample_X_new (- 80) (Some ''none'')])"
proof -
  have h: "Value_scaling sample_X sample_X_new (- 80) (Some ''none'')
     \<in> set (fst (predict_room canned_utils sample_db (sample_request sample_scan ''knn_euclidean'')))"
    by (simp add: run_knn)
  from min_rssi_value_shared [OF h] h show ?thesis
    by (intro conjI)
qed

subsection \<open>The router filters\<close>









subsection \<open>Unrecognised algorithm names\<close>

lemma respond_unrecognised:
  "\<not> recognised (algorithm data) \<Longrightarrow>
     fst (classify_and_respond u db data X X_new y) = []"
  by (simp add: classify_and_respond_def dispatch_unrecognised and_then_pair)

lemma respond_only_classifiers:
  "filter (\<lambda>c. \<not> is_classifier_call c) (fst (classify_and_respond u db data X X_new y)) = []"
  by (rule filter_none) (auto simp: classifier_rank dest: respond_calls)

lemma condition_same_calls:
  assumes "\<not> recognised (algorithm data)"
  shows "fst (condition_and_classify u db data rd X y macs) =
         filter (\<lambda>c. \<not> is_classifier_call c)
           (fst (condition_and_classify u db (data\<lparr>algorithm := a\<rparr>) rd X y macs))"
  using assms
  by (auto simp: condition_and_classify_def Let_def fst_and_then respond_unrecognised
        respond_only_classifiers
      split: sum.splits prod.splits)

lemma train_same_calls:
  assumes "\<not> recognised (algorithm data)"
  shows "fst (train_and_classify u db data rd fp) =
         filter (\<lambda>c. \<not> is_classifier_call c)
           (fst (train_and_classify u db (data\<lparr>algorithm := a\<rparr>) rd fp))"
  using condition_same_calls [OF assms]
  by (auto simp: train_and_classify_def fst_and_then split: sum.splits prod.splits)

lemma filter_chain_algorithm:
  "filter_chain u (data\<lparr>algorithm := a\<rparr>) rd fp = filter_chain u data rd fp"
  by (simp add: filter_chain_def)

lemma filter_chain_no_classifier:
  "filter (\<lambda>c. \<not> is_classifier_call c) (fst (filter_chain u data rd fp)) =
     fst (filter_chain u data rd fp)"
  by (rule filter_all) (auto simp: classifier_rank dest: filter_chain_calls)

lemma predict_same_calls:
  assumes "\<not> recognised (algorithm data)"
  shows "fst (predict_room u db data) =
         filter (\<lambda>c. \<not> is_classifier_call c) (fst (predict_room u db (data\<lparr>algorithm := a\<rparr>)))"
  using train_same_calls [OF assms]
  by (auto simp: predict_room_def Let_def fst_and_then filter_chain_algorithm
        filter_chain_no_classifier
      split: sum.splits)

lemma prediction_recognised:
  assumes "snd (predict_room u db data) = Inr (Prediction n d v)"
  shows "recognised (algorithm data)"
proof -
  obtain X X_new y where
    r: "snd (classify_and_respond u db data X X_new y) = Inr (Prediction n d v)"
    by (rule predict_success [OF assms])
  obtain p d' v' where
    disp: "snd (dispatch u data X X_new y) = Inr (Some (p, d'), v')"
    by (rule respond_success [OF r])
  from dispatch_answer [OF disp] show ?thesis
    by simp
qed

text \<open>
  Claim C1, as amended. For a request whose algorithm name is none of the five names of
  the dispatch, \<^verbatim>\<open>predict_room\<close> returns no prediction and calls no classifier. The name
  is looked at in the dispatch only: up to there the run makes the helper calls that the
  same request makes with any other algorithm name, so the aggregation, the filters,
  the imputation and the scaling are performed as usual.
\<close>

theorem unrecognised_algorithm:
  assumes "\<not> recognised (algorithm data)"
  shows "(\<forall>n d v. snd (predict_room u db data) \<noteq> Inr (Prediction n d v))
     \<and> (\<forall>c\<in>set (fst (predict_room u db data)). \<not> is_classifier_call c)
     \<and> (\<forall>a. fst (predict_room u db data) =
              filter (\<lambda>c. \<not> is_classifier_call c)
                (fst (predict_room u db (data\<lparr>algorithm := a\<rparr>))))"
proof (intro conjI allI ballI)
  fix n d v
  from assms prediction_recognised [of u db data n d v]
  show "snd (predict_room u db data) \<noteq> Inr (Prediction n d v)"
    by blast
next
  fix c assume c: "c \<in> set (fst (predict_room u db data))"
  have "fst (predict_room u db data) =
      filter (\<lambda>c. \<not> is_classifier_call c) (fst (predict_room u db (data\<lparr>algorithm := None\<rparr>)))"
    by (rule predict_same_calls [OF assms])
  with c have "c \<in> set (filter (\<lambda>c. \<not> is_classifier_call c)
      (fst (predict_room u db (data\<lparr>algorithm := None\<rparr>))))"
    by simp
  then show "\<not> is_classifier_call c"
    by simp
next
  fix a
  show "fst (predict_room u db data) =
      filter (\<lambda>c. \<not> is_classifier_call c) (fst (predict_room u db (data\<lparr>algorithm := a\<rparr>)))"
    by (rule predict_same_calls [OF assms])
qed

theorem unrecognised_algorithm_witness:
  "\<not> recognised (algorithm (sample_request sample_scan ''unknown_algo''))
   \<and> snd (predict_room canned_utils sample_db (sample_request sample_scan ''unknown_algo''))
       \<noteq> Inr (Prediction ''101'' 4 (- 1))
   \<and> filter is_classifier_call
        (fst (predict_room canned_utils sample_db (sample_request sample_scan ''unknown_algo''))) = []
   \<and> fst (predict_room canned_utils sample_db (sample_request sample_scan ''unknown_algo'')) =
       filter (\<lambda>c. \<not> is_classifier_call c)
         (fst (predict_room canned_utils sample_db
            ((sample_request sample_scan ''unknown_algo'')\<lparr>algorithm := Some ''knn_euclidean''\<rparr>)))"
proof -
  let ?data = "sample_request sample_scan ''unknown_algo''"
  have h: "\<not> recognised (algorithm ?data)"
    by (simp add: recognised_def)
  note t = unrecognised_algorithm [OF h, of canned_utils sample_db]
  from t have a: "snd (predict_room canned_utils sample_db ?data) \<noteq> Inr (Prediction ''101'' 4 (- 1))"
    by blast
  from t have "\<forall>c\<in>set (fst (predict_room canned_utils sample_db ?data)). \<not> is_classifier_call c"
    by blast
  then have b: "filter is_classifier_call (fst (predict_room canned_utils sample_db ?data)) = []"
    by (simp add: filter_empty_conv)
  from t have c: "fst (predict_room canned_utils sample_db ?data) =
       filter (\<lambda>c. \<not> is_classifier_call c)
         (fst (predict_room canned_utils sample_db (?data\<lparr>algorithm := Some ''knn_euclidean''\<rparr>)))"
    by blast
  from h a b c show ?thesis
    by (intro conjI)
qed

theorem unrecognised_algorithm_counterexample:
  "\<not> recognised (algorithm (sample_request sample_scan ''unknown_algo''))
   \<and> fst (predict_room canned_utils sample_db (sample_request sample_scan ''unknown_algo'')) =
       [Process_received_data sample_scan, Process_fingerprint_data sample_rows,
        Remove_unreceived_bssids sample_rows sample_scan, Prepare_data sample_rows,
        Handle_missing_values sample_X sample_macs sample_scan (Some ''use_received''),
        Prepare_received_data sample_scan sample_macs,
        Handle_router_rssi_threshold sample_X sample_X_new (Some (- 100)),
        Value_scaling sample_X sample_X_new (- 80) (Some ''none'')]
   \<and> fst (predict_room canned_utils sample_db (sample_request sample_scan ''unknown_algo''))
       \<noteq> []"
  by (simp add: run_unknown recognised_def)

subsection \<open>The empty routers list\<close>

text \<open>
  Claim C3, as amended. A request whose routers list is empty is rejected by the guard
  of lines 129-131: \<^verbatim>\<open>predict_room\<close> raises the HTTP 400 exception
  \<^verbatim>\<open>"Missing data"\<close> before any helper is called, whatever the database holds; it
  returns no prediction.
\<close>

theorem empty_routers_rejected:
  assumes "PredictData.routers data = []"
  shows "predict_room u db data = ([], Inl (HTTPException 400 ''Missing data''))"
  using assms by (simp add: predict_room_def raise_def)

theorem empty_routers_rejected_witness:
  "PredictData.routers (sample_request [] ''knn_euclidean'') = []
   \<and> predict_room canned_utils sample_db (sample_request [] ''knn_euclidean'') =
       ([], Inl (HTTPException 400 ''Missing data''))"
proof -
  have h: "PredictData.routers (sample_request [] ''knn_euclidean'') = []"
    by simp
  from empty_routers_rejected [OF h, of canned_utils sample_db] h show ?thesis
    by (intro conjI)
qed

theorem empty_routers_counterexample:
  "PredictData.routers (sample_request [] ''knn_euclidean'') = []
   \<and> snd (predict_room canned_utils sample_db (sample_request [] ''knn_euclidean''))
       \<noteq> Inr (ErrorTuple ''Training data is empty. Check the input data.'' 400)
   \<and> snd (predict_room canned_utils sample_db (sample_request [] ''knn_euclidean''))
       \<noteq> Inl (ValueError ''Received data is empty. Check the input data.'')
   \<and> snd (predict_room canned_utils sample_db (sample_request [] ''knn_euclidean'')) =
       Inl (HTTPException 400 ''Missing data'')"
  by (simp add: predict_room_def raise_def)

subsection \<open>Adding a measurement\<close>

lemma get_or_create_room_tables:
  assumes "get_or_create_room db name = (db1, room)"
  shows "measurements db1 = measurements db"
    and "measurement_router db1 = measurement_router db"
    and "database.routers db1 = database.routers db"
    and "rooms db1 =
         (if \<exists>r\<in>set (rooms db). Room.room_name r = name then rooms db
          else rooms db @
            [\<lparr>Room.room_id = next_id (map Room.room_id (rooms db)), Room.room_name = name,
              description = None, coordinates = None, picture_path = None,
              additional_info = None\<rparr>])"
  using assms
  by (auto simp: get_or_create_room_def Let_def find_None_iff find_Some_iff split: option.splits)

lemma find_existing:
  assumes "m \<in> set ms" and "P m"
  shows "\<exists>m'. find P ms = Some m'"
  using assms by (cases "find P ms") (auto simp: find_None_iff)

text \<open>
  Claim C9, as amended. In the handler, a timestamp equal to 0 is rejected with HTTP 400
  \<^verbatim>\<open>"Missing data"\<close>, the database left as it was: the check of line 70 raises for a
  falsy value (0, the empty string, the empty list) of any of the four fields, and for
  nothing else. A body in which a field is absent does not get this answer: it is
  rejected by the schema of the route before the handler runs.
\<close>

theorem falsy_fields_missing:
  "(add_measurement_checks db data = (db, Inl (HTTPException 400 ''Missing data''))) =
     (MeasurementData.room_name data = [] \<or> MeasurementData.device_id data = [] \<or>
      MeasurementData.timestamp data = 0 \<or> MeasurementData.routers data = [])
   \<and> (snd (add_measurement_checks db data) = Inl (HTTPException 400 ''Missing data'')) =
     (MeasurementData.room_name data = [] \<or> MeasurementData.device_id data = [] \<or>
      MeasurementData.timestamp data = 0 \<or> MeasurementData.routers data = [])
   \<and> (MeasurementBody.timestamp body = Some 0 \<longrightarrow>
        snd (post_measurements_add db body) = Inl (HTTPException 400 ''Missing data'') \<or>
        snd (post_measurements_add db body) = Inl RequestValidationError)
   \<and> (MeasurementBody.room_name body = None \<or> MeasurementBody.device_id body = None \<or>
      MeasurementBody.timestamp body = None \<or> MeasurementBody.routers body = None \<longrightarrow>
        post_measurements_add db body = (db, Inl RequestValidationError))"
proof (intro conjI impI)
  let ?falsy = "MeasurementData.room_name data = [] \<or> MeasurementData.device_id data = [] \<or>
      MeasurementData.timestamp data = 0 \<or> MeasurementData.routers data = []"
  have only: "snd (add_measurement_checks db data) \<noteq> Inl (HTTPException 400 ''Missing data'')"
    if "\<not> ?falsy"
    using that
    by (auto simp: add_measurement_checks_def Let_def utcfromtimestamp_def
        split: prod.splits sum.splits option.splits if_splits)
  have "if": "add_measurement_checks db data = (db, Inl (HTTPException 400 ''Missing data''))"
    if "?falsy"
    using that by (auto simp: add_measurement_checks_def Let_def)
  from only "if" show
    "(add_measurement_checks db data = (db, Inl (HTTPException 400 ''Missing data''))) = ?falsy"
    by (metis snd_conv)
  from only "if" show
    "(snd (add_measurement_checks db data) = Inl (HTTPException 400 ''Missing data'')) = ?falsy"
    by (metis snd_conv)
next
  assume z: "MeasurementBody.timestamp body = Some 0"
  show "snd (post_measurements_add db body) = Inl (HTTPException 400 ''Missing data'') \<or>
        snd (post_measurements_add db body) = Inl RequestValidationError"
  proof (cases "validate_MeasurementData body")
    case (Inl e)
    then have "e = RequestValidationError"
      by (auto simp: validate_MeasurementData_def split: option.splits)
    with Inl show ?thesis
      by (simp add: post_measurements_add_def)
  next
    case (Inr data)
    with z have "MeasurementData.timestamp data = 0"
      by (auto simp: validate_MeasurementData_def split: option.splits)
    then have "add_measurement_checks db data = (db, Inl (HTTPException 400 ''Missing data''))"
      by (simp add: add_measurement_checks_def Let_def)
    with Inr show ?thesis
      by (simp add: post_measurements_add_def)
  qed
next
  assume "MeasurementBody.room_name body = None \<or> MeasurementBody.device_id body = None \<or>
      MeasurementBody.timestamp body = None \<or> MeasurementBody.routers body = None"
  then have "validate_MeasurementData body = Inl RequestValidationError"
    by (auto simp: validate_MeasurementData_def split: option.splits)
  then show "post_measurements_add db body = (db, Inl RequestValidationError)"
    by (simp add: post_measurements_add_def)
qed

lemma sample_body_simps [simp]:
  "MeasurementBody.room_name (sample_body t) = Some ''101''"
  "MeasurementBody.device_id (sample_body t) = Some ''dev1''"
  "MeasurementBody.timestamp (sample_body t) = t"
  "MeasurementBody.routers (sample_body t) = Some sample_scan"
  by (simp_all add: sample_body_def)

lemma sample_measurement_simps [simp]:
  "MeasurementData.room_name (sample_measurement name t rs) = name"
  "MeasurementData.device_id (sample_measurement name t rs) = ''dev1''"
  "MeasurementData.timestamp (sample_measurement name t rs) = t"
  "MeasurementData.routers (sample_measurement name t rs) = rs"
  by (simp_all add: sample_measurement_def)

lemma validate_sample_body:
  "validate_MeasurementData (sample_body (Some t)) = Inr (sample_measurement ''101'' t sample_scan)"
  by (simp add: validate_MeasurementData_def sample_measurement_def)

theorem falsy_fields_missing_witness:
  "MeasurementData.timestamp (sample_measurement ''101'' 0 sample_scan) = 0
   \<and> add_measurement_checks sample_db (sample_measurement ''101'' 0 sample_scan) =
       (sample_db, Inl (HTTPException 400 ''Missing data''))
   \<and> MeasurementBody.timestamp (sample_body (Some 0)) = Some 0
   \<and> snd (post_measurements_add sample_db (sample_body (Some 0))) =
       Inl (HTTPException 400 ''Missing data'')
   \<and> MeasurementBody.timestamp (sample_body None) = None
   \<and> post_measurements_add sample_db (sample_body None) = (sample_db, Inl RequestValidationError)"
proof -
  note t1 = falsy_fields_missing
    [of sample_db "sample_measurement ''101'' 0 sample_scan" "sample_body (Some 0)"]
  note t2 = falsy_fields_missing
    [of sample_db "sample_measurement ''101'' 0 sample_scan" "sample_body None"]
  have z: "MeasurementData.timestamp (sample_measurement ''101'' 0 sample_scan) = 0"
    by simp
  from t1 z have a: "add_measurement_checks sample_db (sample_measurement ''101'' 0 sample_scan) =
       (sample_db, Inl (HTTPException 400 ''Missing data''))"
    by blast
  have b: "MeasurementBody.timestamp (sample_body (Some 0)) = Some 0"
    by simp
  have v: "snd (post_measurements_add sample_db (sample_body (Some 0))) \<noteq> Inl RequestValidationError"
    by (simp add: post_measurements_add_def validate_sample_body add_measurement_checks_def)
  from t1 b v have c: "snd (post_measurements_add sample_db (sample_body (Some 0))) =
       Inl (HTTPException 400 ''Missing data'')"
    by blast
  have d: "MeasurementBody.timestamp (sample_body None) = None"
    by simp
  from t2 d have e: "post_measurements_add sample_db (sample_body None) =
      (sample_db, Inl RequestValidationError)"
    by blast
  from z a b c d e show ?thesis
    by (intro conjI)
qed

theorem absent_timestamp_counterexample:
  "snd (post_measurements_add sample_db (sample_body (Some 0))) =
     Inl (HTTPException 400 ''Missing data'')
   \<and> snd (post_measurements_add sample_db (sample_body None)) = Inl RequestValidationError
   \<and> snd (post_measurements_add sample_db (sample_body (Some 0)))
       \<noteq> snd (post_measurements_add sample_db (sample_body None))"
  by (simp add: post_measurements_add_def validate_sample_body add_measurement_checks_def
      validate_MeasurementData_def)

text \<open>
  Claim C10, as amended. For a request that passes the check of line 70 (no field
  falsy) and whose device and timestamp are those of a stored measurement, the handler
  raises HTTP 409; the tables of measurements, of routers and of readings are as before,
  and the table of rooms is as before when it holds a room of the requested name, and
  extended by one committed row of that name otherwise: the room is looked up and
  created before the check for the existing measurement.
\<close>

theorem duplicate_measurement_conflict:
  assumes "MeasurementData.room_name data \<noteq> []" and "MeasurementData.device_id data \<noteq> []"
      and "MeasurementData.timestamp data \<noteq> 0" and "MeasurementData.routers data \<noteq> []"
      and "utcfromtimestamp (MeasurementData.timestamp data) = Inr t"
      and "m \<in> set (measurements db)"
      and "Measurement.device_id m = MeasurementData.device_id data"
      and "Measurement.timestamp m = t"
  shows "snd (add_measurement_checks db data) =
           Inl (HTTPException 409
             ''Measurement with the same device_id and timestamp already exists'')
     \<and> measurements (fst (add_measurement_checks db data)) = measurements db
     \<and> measurement_router (fst (add_measurement_checks db data)) = measurement_router db
     \<and> database.routers (fst (add_measurement_checks db data)) = database.routers db
     \<and> ((\<exists>r\<in>set (rooms db). Room.room_name r = MeasurementData.room_name data) \<longrightarrow>
          rooms (fst (add_measurement_checks db data)) = rooms db)
     \<and> (\<not> (\<exists>r\<in>set (rooms db). Room.room_name r = MeasurementData.room_name data) \<longrightarrow>
          (\<exists>room. rooms (fst (add_measurement_checks db data)) = rooms db @ [room]
                \<and> Room.room_name room = MeasurementData.room_name data))"
proof -
  obtain db1 room where g: "get_or_create_room db (MeasurementData.room_name data) = (db1, room)"
    by (cases "get_or_create_room db (MeasurementData.room_name data)")
  note tables = get_or_create_room_tables [OF g]
  from assms(6,7,8) tables(1) obtain m' where
    f: "find (\<lambda>m. Measurement.device_id m = MeasurementData.device_id data \<and>
                  Measurement.timestamp m = t) (measurements db1) = Some m'"
    using find_existing [of m "measurements db1"
      "\<lambda>m. Measurement.device_id m = MeasurementData.device_id data \<and> Measurement.timestamp m = t"]
    by auto
  from assms(1-5) g f have run: "add_measurement_checks db data =
      (db1, Inl (HTTPException 409
         ''Measurement with the same device_id and timestamp already exists''))"
    by (simp add: add_measurement_checks_def Let_def)
  show ?thesis
    unfolding run using tables by simp
qed

theorem duplicate_measurement_conflict_witness:
  "MeasurementData.room_name (sample_measurement ''103'' 1700000000 sample_scan) \<noteq> []
   \<and> MeasurementData.device_id (sample_measurement ''103'' 1700000000 sample_scan) \<noteq> []
   \<and> MeasurementData.timestamp (sample_measurement ''103'' 1700000000 sample_scan) \<noteq> 0
   \<and> MeasurementData.routers (sample_measurement ''103'' 1700000000 sample_scan) \<noteq> []
   \<and> utcfromtimestamp (MeasurementData.timestamp (sample_measurement ''103'' 1700000000 sample_scan))
       = Inr (Datetime 1700000000)
   \<and> hd (measurements sample_db) \<in> set (measurements sample_db)
   \<and> Measurement.device_id (hd (measurements sample_db)) =
       MeasurementData.device_id (sample_measurement ''103'' 1700000000 sample_scan)
   \<and> Measurement.timestamp (hd (measurements sample_db)) = Datetime 1700000000
   \<and> snd (add_measurement_checks sample_db (sample_measurement ''103'' 1700000000 sample_scan)) =
       Inl (HTTPException 409
         ''Measurement with the same device_id and timestamp already exists'')
   \<and> measurements (fst (add_measurement_checks sample_db
         (sample_measurement ''103'' 1700000000 sample_scan))) = measurements sample_db
   \<and> measurement_router (fst (add_measurement_checks sample_db
         (sample_measurement ''103'' 1700000000 sample_scan))) = measurement_router sample_db
   \<and> map Room.room_name (rooms sample_db) = [''101'', ''102'']
   \<and> map Room.room_name (rooms (fst (add_measurement_checks sample_db
         (sample_measurement ''103'' 1700000000 sample_scan)))) = [''101'', ''102'', ''103'']"
proof -
  let ?data = "sample_measurement ''103'' 1700000000 sample_scan"
  have h: "MeasurementData.room_name ?data \<noteq> []" "MeasurementData.device_id ?data \<noteq> []"
    "MeasurementData.timestamp ?data \<noteq> 0" "MeasurementData.routers ?data \<noteq> []"
    by simp_all
  have u: "utcfromtimestamp (MeasurementData.timestamp ?data) = Inr (Datetime 1700000000)"
    by (simp add: utcfromtimestamp_def)
  have m: "hd (measurements sample_db) \<in> set (measurements sample_db)"
    "Measurement.device_id (hd (measurements sample_db)) = MeasurementData.device_id ?data"
    "Measurement.timestamp (hd (measurements sample_db)) = Datetime 1700000000"
    by (simp_all add: sample_db_def)
  note t = duplicate_measurement_conflict [OF h u m]
  have before: "map Room.room_name (rooms sample_db) = [''101'', ''102'']"
    by (simp add: sample_db_def)
  then have n: "\<not> (\<exists>r\<in>set (rooms sample_db). Room.room_name r = MeasurementData.room_name ?data)"
    by (simp add: sample_db_def)
  with t obtain room where
    "rooms (fst (add_measurement_checks sample_db ?data)) = rooms sample_db @ [room]"
    "Room.room_name room = MeasurementData.room_name ?data"
    by blast
  with before have rooms:
    "map Room.room_name (rooms (fst (add_measurement_checks sample_db ?data))) =
      [''101'', ''102'', ''103'']"
    by simp
  from t h u m before rooms show ?thesis
    by (intro conjI) simp_all
qed

theorem duplicate_measurement_counterexample:
  "utcfromtimestamp (MeasurementData.timestamp (sample_measurement ''101'' 1700000000 []))
     = Inr (Measurement.timestamp (hd (measurements sample_db)))
   \<and> Measurement.device_id (hd (measurements sample_db)) =
       MeasurementData.device_id (sample_measurement ''101'' 1700000000 [])
   \<and> hd (measurements sample_db) \<in> set (measurements sample_db)
   \<and> snd (add_measurement_checks sample_db (sample_measurement ''101'' 1700000000 [])) =
       Inl (HTTPException 400 ''Missing data'')
   \<and> snd (add_measurement_checks sample_db (sample_measurement ''101'' 1700000000 []))
       \<noteq> Inl (HTTPException 409
            ''Measurement with the same device_id and timestamp already exists'')"
  by (simp add: add_measurement_checks_def utcfromtimestamp_def sample_db_def)

end
